theory Spec2Isabelle
  imports Complex_Main "HOL-Library.Multiset" "HOL-Library.Sublist"
begin

section \<open>JavaScript values\<close>

text \<open>
  The values the router handles come out of JSON (the provider's response, the query
  string, the request body), so a value is \<open>undefined\<close>, \<open>null\<close>, a boolean, a number, a
  string, an array or an object. A number is the rational its decimal text denotes:
  rounding to the nearest double, the infinities and the sign of zero are left out, and
  \<open>NaN\<close> is kept apart as the absent result of \<open>parseFloat\<close>. A string is a list of
  characters, each one code unit below 256. An object is the list of its own
  properties, each key bound once.
\<close>

datatype jsval =
    Undefined
  | Null
  | Bool bool
  | Num rat
  | Str string
  | Arr "jsval list"
  | Obj "(string \<times> jsval) list"

type_synonym raw_record = "(string \<times> jsval) list"

text \<open>\<open>ToBoolean\<close>: what the operators \<open>||\<close> and \<open>!\<close> and the test of an \<open>if\<close> look at.\<close>

fun truthy :: "jsval \<Rightarrow> bool" where
  "truthy Undefined = False"
| "truthy Null = False"
| "truthy (Bool b) = b"
| "truthy (Num n) = (n \<noteq> 0)"
| "truthy (Str s) = (s \<noteq> [])"
| "truthy (Arr xs) = True"
| "truthy (Obj kvs) = True"

text \<open>\<open>a || b\<close>: the left operand when it is truthy, else the right one.\<close>

definition js_or :: "jsval \<Rightarrow> jsval \<Rightarrow> jsval" where
  "js_or a b = (if truthy a then a else b)"

text \<open>\<open>r.key\<close> on a record: the property's value, \<open>undefined\<close> when the record has none.\<close>

definition js_get :: "raw_record \<Rightarrow> string \<Rightarrow> jsval" where
  "js_get r k = (case map_of r k of None \<Rightarrow> Undefined | Some v \<Rightarrow> v)"

text \<open>
  What a handler's \<open>catch\<close> can receive: a \<open>TypeError\<close> or \<open>SyntaxError\<close> raised by the
  engine, a \<open>CastError\<close> raised when an id does not cast to an ObjectId, or the error of a
  rejected collaborator call with its \<open>message\<close>, when it has one.
\<close>

datatype thrown = TypeError | SyntaxError | CastError | Rejection "string option"

section \<open>Offers and the lowest price\<close>

text \<open>
  The object the sponsored search returns for one provider record (lines 32 to 38):
  \<open>price\<close> is \<open>null\<close> (\<open>None\<close>) or a number that is not \<open>NaN\<close>.
\<close>

record item =
  title :: jsval
  url :: jsval
  seller :: jsval
  price :: "rat option"
  raw :: raw_record

text \<open>
  The callback of \<open>items.reduce\<close> (lines 41 to 44): an item without a price leaves the
  accumulator alone; the first price replaces the initial \<open>null\<close>; later ones go through
  \<open>Math.min\<close>.
\<close>

definition reduce_step :: "rat option \<Rightarrow> item \<Rightarrow> rat option" where
  "reduce_step acc it =
     (case price it of
        None \<Rightarrow> acc
      | Some p \<Rightarrow> (case acc of None \<Rightarrow> Some p | Some a \<Rightarrow> Some (min a p)))"

definition lowestPrice :: "item list \<Rightarrow> rat option" where
  "lowestPrice items = foldl reduce_step None items"

text \<open>The non-null prices of a sequence of items, in order.\<close>

definition non_null_prices :: "item list \<Rightarrow> rat list" where
  "non_null_prices items = List.map_filter price items"

section \<open>The price parser\<close>

text \<open>
  \<open>Number::toString\<close>. A number from \<open>1e-6\<close> up to \<open>1e21\<close> in magnitude prints as its
  decimal expansion; outside that range it prints as its digits, with a point after the
  first when there are more, and the exponent. The expansion is followed for 400 fraction
  digits, more than the shortest decimal of any double has.
\<close>

definition digit_char :: "nat \<Rightarrow> char" where
  "digit_char d = char_of (48 + d)"

function int_to_string :: "int \<Rightarrow> string" where
  "int_to_string n =
     (if n < 10 then [digit_char (nat n)]
      else int_to_string (n div 10) @ [digit_char (nat (n mod 10))])"
  by pat_completeness auto
termination
  by (relation "measure nat") auto

fun frac_digits :: "nat \<Rightarrow> rat \<Rightarrow> string" where
  "frac_digits 0 f = []"
| "frac_digits (Suc k) f =
     (if f = 0 then []
      else digit_char (nat \<lfloor>f * 10\<rfloor>) # frac_digits k (f * 10 - of_int \<lfloor>f * 10\<rfloor>))"

definition is_zero :: "char \<Rightarrow> bool" where
  "is_zero c = (c = CHR ''0'')"

definition number_to_string :: "rat \<Rightarrow> string" where
  "number_to_string x =
     (let a = \<bar>x\<bar>;
          ip = \<lfloor>a\<rfloor>;
          ds = (if ip = 0 then [] else int_to_string ip);
          fs = frac_digits 400 (a - of_int ip);
          sign = (if x < 0 then ''-'' else [])
      in if a = 0 then ''0''
         else if 1 / 10 ^ 6 \<le> a \<and> a < 10 ^ 21 then
           sign @ int_to_string ip @ (if fs = [] then [] else CHR ''.'' # fs)
         else
           (let s = rev (dropWhile is_zero (rev (dropWhile is_zero (ds @ fs))));
                n = (if ip = 0 then - int (length (takeWhile is_zero fs)) else int (length ds));
                e = n - 1
            in sign
               @ (case s of [] \<Rightarrow> [] | d # rest \<Rightarrow> d # (if rest = [] then [] else CHR ''.'' # rest))
               @ ''e'' @ (if 0 \<le> e then ''+'' else ''-'') @ int_to_string \<bar>e\<bar>))"

text \<open>
  \<open>String(v)\<close> (line 29). An object prints as \<open>[object Object]\<close> through the \<open>toString\<close> it
  inherits; one that has a property \<open>toString\<close> of its own, which in data parsed from JSON
  is never a function, has no callable conversion and \<open>String\<close> throws a \<open>TypeError\<close>. An
  array joins its elements with commas, \<open>null\<close> and \<open>undefined\<close> elements printing as
  nothing, and throws where an element does.
\<close>

definition join_comma :: "string list \<Rightarrow> string" where
  "join_comma ss = (case ss of [] \<Rightarrow> [] | t # ts \<Rightarrow> foldl (\<lambda>acc u. acc @ '','' @ u) t ts)"

fun first_thrown :: "(thrown + 'a) list \<Rightarrow> thrown + 'a list" where
  "first_thrown [] = Inr []"
| "first_thrown (x # xs) =
     (case x of
        Inl e \<Rightarrow> Inl e
      | Inr v \<Rightarrow> (case first_thrown xs of Inl e \<Rightarrow> Inl e | Inr vs \<Rightarrow> Inr (v # vs)))"

fun to_string :: "jsval \<Rightarrow> thrown + string" where
  "to_string Undefined = Inr ''undefined''"
| "to_string Null = Inr ''null''"
| "to_string (Bool b) = Inr (if b then ''true'' else ''false'')"
| "to_string (Num n) = Inr (number_to_string n)"
| "to_string (Str s) = Inr s"
| "to_string (Arr xs) =
     (case first_thrown
             (map (\<lambda>v. if v = Undefined \<or> v = Null then Inr [] else to_string v) xs) of
        Inl e \<Rightarrow> Inl e
      | Inr ss \<Rightarrow> Inr (join_comma ss))"
| "to_string (Obj kvs) =
     (if map_of kvs ''toString'' = None then Inr ''[object Object]'' else Inl TypeError)"

text \<open>
  \<open>.replace(/[^0-9.\-]/g, '')\<close>: every character that is not a digit, a point or a
  minus sign is removed, wherever it stands.
\<close>

definition is_digit :: "char \<Rightarrow> bool" where
  "is_digit c = (c \<in> set ''0123456789'')"

definition kept :: "char \<Rightarrow> bool" where
  "kept c = (is_digit c \<or> c = CHR ''.'' \<or> c = CHR ''-'')"

definition strip :: "string \<Rightarrow> string" where
  "strip s = filter kept s"

text \<open>
  \<open>parseFloat\<close> reads the longest prefix of its argument that is a decimal literal and
  gives \<open>NaN\<close> (\<open>None\<close>) when there is none. Its argument here is always a stripped text,
  made of digits, points and minus signs, so the literal is an optional minus sign
  followed by digits, by digits, a point and maybe digits, or by a point and digits;
  the parts of the grammar that need other characters (leading white space, a plus
  sign, an exponent, \<open>Infinity\<close>) cannot occur and are not modelled.
\<close>

definition digit_val :: "char \<Rightarrow> nat" where
  "digit_val c = of_char c - 48"

definition digits_val :: "string \<Rightarrow> nat" where
  "digits_val ds = foldl (\<lambda>n c. 10 * n + digit_val c) 0 ds"

definition unsigned_literal :: "string \<Rightarrow> rat option" where
  "unsigned_literal s =
     (let ip = takeWhile is_digit s;
          rest = dropWhile is_digit s;
          fp = (case rest of [] \<Rightarrow> [] | c # t \<Rightarrow> if c = CHR ''.'' then takeWhile is_digit t else [])
      in if ip = [] \<and> fp = [] then None
         else Some (of_nat (digits_val ip) + of_nat (digits_val fp) / 10 ^ length fp))"

definition parseFloat :: "string \<Rightarrow> rat option" where
  "parseFloat s =
     (case s of
        [] \<Rightarrow> None
      | c # t \<Rightarrow> if c = CHR ''-'' then map_option uminus (unsigned_literal t)
                 else unsigned_literal s)"

text \<open>
  Lines 27 to 31: \<open>price\<close> starts as \<open>null\<close>; a raw price that is neither \<open>undefined\<close> nor
  \<open>null\<close> is printed, stripped and parsed, and the result is kept unless it is \<open>NaN\<close>.
  Where \<open>String\<close> throws, so does the parser.
\<close>

definition parse_price :: "jsval \<Rightarrow> thrown + rat option" where
  "parse_price priceRaw =
     (if priceRaw \<noteq> Undefined \<and> priceRaw \<noteq> Null
      then (case to_string priceRaw of
              Inl e \<Rightarrow> Inl e
            | Inr printed \<Rightarrow> Inr (parseFloat (strip printed)))
      else Inr None)"




section \<open>The offer normalizer\<close>

text \<open>
  The callback of \<open>results.map\<close> (lines 25 to 39). Every field is a chain of \<open>||\<close> over
  the record's candidate properties; \<open>r.price\<close> stands twice in the chain of the raw
  price, as in the source. The callback returns the offer, or throws what the price
  parser throws.
\<close>

definition normalize_offer :: "raw_record \<Rightarrow> thrown + item" where
  "normalize_offer r =
     (let priceRaw =
            js_or (js_or (js_or (js_get r ''price'') (js_get r ''extracted_price''))
                         (js_get r ''price'')) Null
      in case parse_price priceRaw of
           Inl e \<Rightarrow> Inl e
         | Inr parsed \<Rightarrow>
             Inr \<lparr>title = js_or (js_or (js_or (js_get r ''title'') (js_get r ''product_title''))
                                    (js_get r ''name'')) (Str []),
                  url = js_or (js_or (js_or (js_or (js_get r ''link'') (js_get r ''product_link''))
                                            (js_get r ''offer_link'')) (js_get r ''source''))
                          (Str []),
                  seller = js_or (js_or (js_or (js_get r ''source'') (js_get r ''merchant''))
                                     (js_get r ''store'')) (Str []),
                  price = parsed,
                  raw = r\<rparr>)"

text \<open>\<open>results.map\<close>: the offers in order, or what the first callback that throws threw.\<close>

definition map_results :: "raw_record list \<Rightarrow> thrown + item list" where
  "map_results results = first_thrown (map normalize_offer results)"

text \<open>
  The specification's words for the normalizer: the first candidate that is present
  wins. A property is present when the record has it, whatever its value.
\<close>

definition first_present :: "jsval list \<Rightarrow> jsval \<Rightarrow> jsval" where
  "first_present cands dflt =
     (case filter (\<lambda>v. v \<noteq> Undefined) cands of [] \<Rightarrow> dflt | v # _ \<Rightarrow> v)"

definition spec_normalize :: "raw_record \<Rightarrow> thrown + item" where
  "spec_normalize r =
     map_sum id
       (\<lambda>parsed.
          \<lparr>title = first_present [js_get r ''title'', js_get r ''product_title'', js_get r ''name'']
                     (Str []),
           url = first_present [js_get r ''link'', js_get r ''product_link'',
                                js_get r ''offer_link'', js_get r ''source''] (Str []),
           seller = first_present [js_get r ''source'', js_get r ''merchant'', js_get r ''store'']
                      (Str []),
           price = parsed,
           raw = r\<rparr>)
       (parse_price (first_present [js_get r ''price'', js_get r ''extracted_price''] Null))"

text \<open>What the code does instead: the first candidate that is truthy wins.\<close>

definition first_truthy :: "jsval list \<Rightarrow> jsval \<Rightarrow> jsval" where
  "first_truthy cands dflt = (case filter truthy cands of [] \<Rightarrow> dflt | v # _ \<Rightarrow> v)"

section \<open>Responses and collaborators\<close>

text \<open>The result of awaiting a collaborator: its value, or the rejection's \<open>message\<close>.\<close>

datatype 'a awaited = Resolved 'a | Rejected "string option"

text \<open>
  The provider's response as the handler reads it (line 23): \<open>resp.data\<close> may be absent,
  and so may its \<open>shopping_results\<close>, which is otherwise an array of records.
\<close>

record provider_data =
  shopping_results :: "raw_record list option"

record axios_response =
  data :: "provider_data option"

text \<open>
  A tracked product with the paths the router reads and writes; \<open>pid\<close> is \<open>_id\<close>, \<open>views\<close> is
  \<open>metadata.views\<close>. A history entry is \<open>{price, date}\<close>.
\<close>

record entry =
  entry_price :: rat
  entry_date :: nat

record product =
  pid :: string
  name :: "string option"
  product_url :: "string option"
  platform :: "string option"
  targetPrice :: "rat option"
  currentPrice :: rat
  userId :: string
  priceHistory :: "entry list"
  views :: nat
  createdAt :: nat

text \<open>
  The bodies the handlers send. \<open>Products\<close> is \<open>{products}\<close>, \<open>CachedProducts\<close> is
  \<open>{products, cached: true}\<close> with the deserialized cache value; \<open>MessageError\<close> is
  \<open>{message, error}\<close>, \<open>error\<close> being the \<open>message\<close> of the error that was caught.
\<close>

datatype body =
    Message string
  | MessageError string thrown
  | SponsoredResult "item list" "rat option"
  | Products "product list"
  | CachedProducts jsval
  | MessageProduct string product
  | ProductOnly product

record response =
  status :: nat
  body :: body

text \<open>
  \<open>req.body\<close>: each path is absent or holds a value of the schema's type. The create
  handler reads \<open>name\<close>, \<open>url\<close>, \<open>platform\<close> and \<open>targetPrice\<close>; the update handler hands
  the whole body to \<open>$set\<close>.
\<close>

record fields =
  b_name :: "string option"
  b_url :: "string option"
  b_platform :: "string option"
  b_targetPrice :: "rat option"
  b_currentPrice :: "rat option"
  b_userId :: "string option"
  b_priceHistory :: "entry list option"
  b_views :: "nat option"

datatype http_method = GET | POST | PUT | DELETE

text \<open>
  A request: its method, its path below the router's mount point as segments,
  \<open>req.query.q\<close>, the credential the authentication collaborator looks at, and the body.
\<close>

record request =
  req_method :: http_method
  path :: "string list"
  query_q :: jsval
  authorization :: "string option"
  req_body :: fields

text \<open>
  The collaborators, none of them in the repository's files. \<open>axios_get\<close> is the provider
  call. \<open>validation\<close> is what the Product schema makes of a document on \<open>save\<close>: \<open>None\<close>
  when it is accepted, else the message of the rejection. \<open>JSON_parse\<close> gives \<open>None\<close> where
  \<open>JSON.parse\<close> throws. \<open>new_id\<close> is the ObjectId Mongoose gives a new document and \<open>now\<close>
  the time of the request.

  \<open>scrapePrice\<close> (utils/scraper) is awaited like any call: it rejects, or it resolves
  with \<open>{price: number}\<close> (\<open>Some p\<close>) or with an absent result (\<open>None\<close>), the two results of
  the black box of section 4.4.

  Modelled from the spec: \<open>auth\<close> (middleware/auth) either injects the acting user's
  identity as \<open>req.userId\<close> and lets the handler run (\<open>Inr\<close>), or answers the request
  itself (\<open>Inl\<close>).
\<close>

record env =
  SERPAPI_API_KEY :: "string option"
  axios_get :: "string \<Rightarrow> axios_response awaited"
  scrapePrice :: "string option \<Rightarrow> string option \<Rightarrow> rat option awaited"
  validation :: "product \<Rightarrow> string option"
  JSON_stringify :: "product list \<Rightarrow> string"
  JSON_parse :: "string \<Rightarrow> jsval option"
  auth :: "request \<Rightarrow> response + string"
  new_id :: string
  now :: nat

text \<open>
  The state the requests share: the Product collection in insertion order, and what
  \<open>getRedisClient()\<close> returns, \<open>None\<close> for \<open>null\<close> and otherwise the cache, which maps a key
  to its value and the expiry it was stored with. Calls to the store and to the cache are
  taken to succeed; a store call fails only through \<open>validation\<close> or a cast.
\<close>

record state =
  store :: "product list"
  redis :: "(string \<Rightarrow> (string \<times> nat) option) option"

section \<open>The sponsored search\<close>

text \<open>\<open>String.prototype.trim\<close> on the white space below code unit 256.\<close>

definition is_space :: "char \<Rightarrow> bool" where
  "is_space c = ((of_char c :: nat) \<in> set [9, 10, 11, 12, 13, 32, 160])"

definition trim :: "string \<Rightarrow> string" where
  "trim s = rev (dropWhile is_space (rev (dropWhile is_space s)))"

text \<open>
  \<open>encodeURIComponent\<close>: letters, digits and \<open>- _ . ! ~ * ' ( )\<close> stay; every other code
  unit is written as the percent-escaped bytes of its UTF-8 encoding.
\<close>

definition unreserved :: "char \<Rightarrow> bool" where
  "unreserved c =
     (let n = (of_char c :: nat)
      in (65 \<le> n \<and> n \<le> 90) \<or> (97 \<le> n \<and> n \<le> 122) \<or> (48 \<le> n \<and> n \<le> 57)
         \<or> c \<in> set ''-_.!~()*'' \<or> n = 39)"

definition percent :: "nat \<Rightarrow> string" where
  "percent n = [CHR ''%'', ''0123456789ABCDEF'' ! (n div 16), ''0123456789ABCDEF'' ! (n mod 16)]"

definition encodeURIComponent :: "string \<Rightarrow> string" where
  "encodeURIComponent s =
     concat (map (\<lambda>c. let n = (of_char c :: nat)
                      in if unreserved c then [c]
                         else if n < 128 then percent n
                         else percent (192 + n div 64) @ percent (128 + n mod 64)) s)"

text \<open>The URL of line 21.\<close>

definition search_url :: "string \<Rightarrow> string \<Rightarrow> string" where
  "search_url q apiKey =
     ''https://serpapi.com/search.json?engine=google_shopping&q=''
       @ encodeURIComponent q @ ''&api_key='' @ apiKey"

text \<open>The \<open>catch\<close> of the sponsored search (lines 47 to 50).\<close>

definition sponsored_catch :: "thrown \<Rightarrow> response" where
  "sponsored_catch e =
     \<lparr>status = 500, body = MessageError ''Error fetching sponsored results'' e\<rparr>"

text \<open>
  The handler of \<open>GET /sponsored\<close> (lines 13 to 51), returning its response and the URLs
  it asked the provider for. \<open>(req.query.q || '')\<close> is a string or, when the query string
  repeats or nests \<open>q\<close>, an array or object, on which \<open>.trim\<close> is not a function. An error
  thrown while the results are mapped reaches the same \<open>catch\<close>.
\<close>

definition sponsored :: "env \<Rightarrow> request \<Rightarrow> response \<times> string list" where
  "sponsored env req =
     (case js_or (query_q req) (Str []) of
        Str s \<Rightarrow>
          (let q = trim s
           in if q = [] then (\<lparr>status = 400, body = Message ''Missing query parameter `q`''\<rparr>, [])
              else
                (case SERPAPI_API_KEY env of
                   None \<Rightarrow>
                     (\<lparr>status = 500, body = Message ''SERPAPI_API_KEY not configured on server''\<rparr>, [])
                 | Some apiKey \<Rightarrow>
                     if apiKey = [] then
                       (\<lparr>status = 500,
                         body = Message ''SERPAPI_API_KEY not configured on server''\<rparr>, [])
                     else
                       (let url = search_url q apiKey
                        in case axios_get env url of
                             Rejected m \<Rightarrow> (sponsored_catch (Rejection m), [url])
                           | Resolved resp \<Rightarrow>
                               (let results =
                                      (case data resp of
                                         None \<Rightarrow> []
                                       | Some d \<Rightarrow>
                                           (case shopping_results d of None \<Rightarrow> [] | Some rs \<Rightarrow> rs))
                                in case map_results results of
                                     Inl e \<Rightarrow> (sponsored_catch e, [url])
                                   | Inr items \<Rightarrow>
                                       (\<lparr>status = 200,
                                         body = SponsoredResult items (lowestPrice items)\<rparr>,
                                        [url])))))
      | _ \<Rightarrow> (sponsored_catch TypeError, []))"

section \<open>The product store and the cache gate\<close>

definition cacheKey :: "string \<Rightarrow> string" where
  "cacheKey uid = ''products:'' @ uid"

text \<open>
  \<open>Product.find({userId}).sort({createdAt: -1}).limit(100)\<close>; documents created at the
  same time keep their insertion order.
\<close>

definition Product_find :: "string \<Rightarrow> product list \<Rightarrow> product list" where
  "Product_find uid docs =
     take 100 (sort_key (\<lambda>p. - int (createdAt p)) (filter (\<lambda>p. userId p = uid) docs))"

text \<open>
  A string casts to an ObjectId when it is 24 hexadecimal digits, in either case. An
  ObjectId is held as its hexadecimal text in lower case, which is how a document's
  \<open>pid\<close> is stored, so the cast lowers the letters.
\<close>

definition to_lower :: "char \<Rightarrow> char" where
  "to_lower c =
     (let n = (of_char c :: nat) in if 65 \<le> n \<and> n \<le> 90 then char_of (n + 32) else c)"

definition ObjectId_cast :: "string \<Rightarrow> string option" where
  "ObjectId_cast s =
     (if length s = 24 \<and> list_all (\<lambda>c. c \<in> set ''0123456789abcdefABCDEF'') s
      then Some (map to_lower s) else None)"

text \<open>The filter \<open>{_id: req.params.id, userId: req.userId}\<close>, the id already cast.\<close>

definition owned :: "string \<Rightarrow> string \<Rightarrow> product \<Rightarrow> bool" where
  "owned oid uid p = (pid p = oid \<and> userId p = uid)"

fun update_first :: "('a \<Rightarrow> bool) \<Rightarrow> ('a \<Rightarrow> 'a) \<Rightarrow> 'a list \<Rightarrow> 'a list" where
  "update_first P f [] = []"
| "update_first P f (x # xs) = (if P x then f x # xs else x # update_first P f xs)"

fun remove_first :: "('a \<Rightarrow> bool) \<Rightarrow> 'a list \<Rightarrow> 'a list" where
  "remove_first P [] = []"
| "remove_first P (x # xs) = (if P x then xs else x # remove_first P xs)"

text \<open>\<open>if (redis) await redis.del(`products:${req.userId}`)\<close>.\<close>

definition invalidate :: "string \<Rightarrow> state \<Rightarrow> state" where
  "invalidate uid st =
     (case redis st of
        None \<Rightarrow> st
      | Some c \<Rightarrow> st\<lparr>redis := Some (c(cacheKey uid := None))\<rparr>)"

text \<open>
  \<open>GET /\<close> (lines 53 to 77). \<open>redis.get\<close> gives the stored string or \<open>null\<close>, and the test
  \<open>if (cached)\<close> also passes over an empty string.
\<close>

definition list_products :: "env \<Rightarrow> string \<Rightarrow> state \<Rightarrow> response \<times> state" where
  "list_products env uid st =
     (let cached =
            (case redis st of
               None \<Rightarrow> None
             | Some c \<Rightarrow>
                 (case c (cacheKey uid) of
                    None \<Rightarrow> None
                  | Some (v, ttl) \<Rightarrow> if v \<noteq> [] then Some v else None))
      in case cached of
           Some v \<Rightarrow>
             (case JSON_parse env v of
                None \<Rightarrow>
                  (\<lparr>status = 500, body = MessageError ''Error fetching products'' SyntaxError\<rparr>, st)
              | Some parsed \<Rightarrow> (\<lparr>status = 200, body = CachedProducts parsed\<rparr>, st))
         | None \<Rightarrow>
             (let products = Product_find uid (store st);
                  st' = (case redis st of
                           None \<Rightarrow> st
                         | Some c \<Rightarrow>
                             st\<lparr>redis :=
                                  Some (c(cacheKey uid \<mapsto> (JSON_stringify env products, 300)))\<rparr>)
              in (\<lparr>status = 200, body = Products products\<rparr>, st')))"

text \<open>
  \<open>new Product({...})\<close> (lines 85 to 96) for the price data the scrape gave.
  \<open>priceData?.price || 0\<close> is the scraped price unless that is zero or there is none; the
  history is seeded with one entry when there is price data. \<open>views\<close> and \<open>createdAt\<close> get
  the schema's initial values.
\<close>

definition new_product :: "env \<Rightarrow> string \<Rightarrow> fields \<Rightarrow> rat option \<Rightarrow> product" where
  "new_product env uid b priceData =
     \<lparr>pid = new_id env,
      name = b_name b,
      product_url = b_url b,
      platform = b_platform b,
      targetPrice = b_targetPrice b,
      currentPrice = (case priceData of None \<Rightarrow> 0 | Some p \<Rightarrow> if p \<noteq> 0 then p else 0),
      userId = uid,
      priceHistory =
        (case priceData of
           None \<Rightarrow> []
         | Some p \<Rightarrow> [\<lparr>entry_price = p, entry_date = now env\<rparr>]),
      views = 0,
      createdAt = now env\<rparr>"

text \<open>
  \<open>POST /\<close> (lines 79 to 109). The scrape is awaited inside the \<open>try\<close>: when it rejects,
  the \<open>catch\<close> answers 500 and nothing is stored, as when \<open>save\<close> rejects the document.
\<close>

definition create :: "env \<Rightarrow> string \<Rightarrow> fields \<Rightarrow> state \<Rightarrow> response \<times> state" where
  "create env uid b st =
     (case scrapePrice env (b_url b) (b_platform b) of
        Rejected m \<Rightarrow>
          (\<lparr>status = 500, body = MessageError ''Error adding product'' (Rejection m)\<rparr>, st)
      | Resolved priceData \<Rightarrow>
          (let product = new_product env uid b priceData
           in case validation env product of
                Some m \<Rightarrow>
                  (\<lparr>status = 500,
                    body = MessageError ''Error adding product'' (Rejection (Some m))\<rparr>, st)
              | None \<Rightarrow>
                  (\<lparr>status = 201, body = MessageProduct ''Product added successfully'' product\<rparr>,
                   invalidate uid (st\<lparr>store := store st @ [product]\<rparr>))))"

text \<open>
  \<open>GET /:id\<close> (lines 111 to 129): the view counter goes up by one and the document is
  saved, which writes it back under its \<open>_id\<close>.
\<close>

definition read_one :: "env \<Rightarrow> string \<Rightarrow> string \<Rightarrow> state \<Rightarrow> response \<times> state" where
  "read_one env uid param st =
     (case ObjectId_cast param of
        None \<Rightarrow> (\<lparr>status = 500, body = MessageError ''Error fetching product'' CastError\<rparr>, st)
      | Some oid \<Rightarrow>
        (case find (owned oid uid) (store st) of
           None \<Rightarrow> (\<lparr>status = 404, body = Message ''Product not found''\<rparr>, st)
         | Some found \<Rightarrow>
             (let product = found\<lparr>views := views found + 1\<rparr>
              in case validation env product of
                   Some m \<Rightarrow>
                     (\<lparr>status = 500,
                       body = MessageError ''Error fetching product'' (Rejection (Some m))\<rparr>, st)
                 | None \<Rightarrow>
                     (\<lparr>status = 200, body = ProductOnly product\<rparr>,
                      st\<lparr>store :=
                           update_first (\<lambda>p. pid p = pid product) (\<lambda>p. product) (store st)\<rparr>))))"

text \<open>\<open>{ $set: req.body }\<close>: every path the body holds replaces the document's.\<close>

definition apply_set :: "fields \<Rightarrow> product \<Rightarrow> product" where
  "apply_set b p =
     p\<lparr>name := (case b_name b of None \<Rightarrow> name p | Some v \<Rightarrow> Some v),
       product_url := (case b_url b of None \<Rightarrow> product_url p | Some v \<Rightarrow> Some v),
       platform := (case b_platform b of None \<Rightarrow> platform p | Some v \<Rightarrow> Some v),
       targetPrice := (case b_targetPrice b of None \<Rightarrow> targetPrice p | Some v \<Rightarrow> Some v),
       currentPrice := (case b_currentPrice b of None \<Rightarrow> currentPrice p | Some v \<Rightarrow> v),
       userId := (case b_userId b of None \<Rightarrow> userId p | Some v \<Rightarrow> v),
       priceHistory := (case b_priceHistory b of None \<Rightarrow> priceHistory p | Some v \<Rightarrow> v),
       views := (case b_views b of None \<Rightarrow> views p | Some v \<Rightarrow> v)\<rparr>"

text \<open>\<open>PUT /:id\<close> (lines 131 to 152), with \<open>{new: true}\<close>: the updated document is returned.\<close>

definition update :: "env \<Rightarrow> string \<Rightarrow> string \<Rightarrow> fields \<Rightarrow> state \<Rightarrow> response \<times> state" where
  "update env uid param b st =
     (case ObjectId_cast param of
        None \<Rightarrow> (\<lparr>status = 500, body = MessageError ''Error updating product'' CastError\<rparr>, st)
      | Some oid \<Rightarrow>
        (case find (owned oid uid) (store st) of
           None \<Rightarrow> (\<lparr>status = 404, body = Message ''Product not found''\<rparr>, st)
         | Some found \<Rightarrow>
             (\<lparr>status = 200,
               body = MessageProduct ''Product updated successfully'' (apply_set b found)\<rparr>,
              invalidate uid
                (st\<lparr>store := update_first (owned oid uid) (apply_set b) (store st)\<rparr>))))"

text \<open>\<open>DELETE /:id\<close> (lines 154 to 174).\<close>

definition delete :: "env \<Rightarrow> string \<Rightarrow> string \<Rightarrow> state \<Rightarrow> response \<times> state" where
  "delete env uid param st =
     (case ObjectId_cast param of
        None \<Rightarrow> (\<lparr>status = 500, body = MessageError ''Error deleting product'' CastError\<rparr>, st)
      | Some oid \<Rightarrow>
        (case find (owned oid uid) (store st) of
           None \<Rightarrow> (\<lparr>status = 404, body = Message ''Product not found''\<rparr>, st)
         | Some found \<Rightarrow>
             (\<lparr>status = 200, body = Message ''Product deleted successfully''\<rparr>,
              invalidate uid (st\<lparr>store := remove_first (owned oid uid) (store st)\<rparr>))))"

section \<open>The router\<close>

text \<open>
  What the router does with a request: the response of the handler or middleware that
  answered (\<open>None\<close> when no route of this router matches), the state afterwards, and the
  URLs asked of the provider.
\<close>

record outcome =
  reply :: "response option"
  after :: state
  requested :: "string list"

text \<open>
  A route's path is \<open>/\<close>, a literal segment or \<open>/:id\<close>. Express compares a literal
  without regard to case; a parameter takes any one segment.
\<close>

datatype pattern = Root | Literal string | Param

fun matches :: "pattern \<Rightarrow> string list \<Rightarrow> bool" where
  "matches Root p = (p = [])"
| "matches (Literal l) p = (case p of [seg] \<Rightarrow> map to_lower seg = l | _ \<Rightarrow> False)"
| "matches Param p = (case p of [seg] \<Rightarrow> seg \<noteq> [] | _ \<Rightarrow> False)"

text \<open>\<open>req.params.id\<close> on a route \<open>/:id\<close>.\<close>

definition param_id :: "request \<Rightarrow> string" where
  "param_id req = (case path req of [] \<Rightarrow> [] | seg # _ \<Rightarrow> seg)"

text \<open>
  A route registered without \<open>auth\<close> runs its handler on the request as it is; one
  registered with \<open>auth\<close> runs its handler with the identity \<open>auth\<close> injected.
\<close>

datatype endpoint =
    Open "env \<Rightarrow> request \<Rightarrow> state \<Rightarrow> outcome"
  | Guarded "env \<Rightarrow> string \<Rightarrow> request \<Rightarrow> state \<Rightarrow> outcome"

definition on_state :: "response \<times> state \<Rightarrow> outcome" where
  "on_state rs = \<lparr>reply = Some (fst rs), after = snd rs, requested = []\<rparr>"

definition sponsored_route :: "env \<Rightarrow> request \<Rightarrow> state \<Rightarrow> outcome" where
  "sponsored_route env req st =
     \<lparr>reply = Some (fst (sponsored env req)), after = st, requested = snd (sponsored env req)\<rparr>"

text \<open>
  The routes in the order the file registers them (lines 13, 53, 79, 111, 131, 154 and
  182). The second sponsored search has the same body as the first, behind \<open>auth\<close>.
\<close>

definition routes :: "(http_method \<times> pattern \<times> endpoint) list" where
  "routes =
     [(GET, Literal ''sponsored'', Open sponsored_route),
      (GET, Root, Guarded (\<lambda>env uid req st. on_state (list_products env uid st))),
      (POST, Root, Guarded (\<lambda>env uid req st. on_state (create env uid (req_body req) st))),
      (GET, Param, Guarded (\<lambda>env uid req st. on_state (read_one env uid (param_id req) st))),
      (PUT, Param,
         Guarded (\<lambda>env uid req st. on_state (update env uid (param_id req) (req_body req) st))),
      (DELETE, Param, Guarded (\<lambda>env uid req st. on_state (delete env uid (param_id req) st))),
      (GET, Literal ''sponsored'', Guarded (\<lambda>env uid. sponsored_route env))]"

text \<open>
  The first route whose method and path match takes the request; none of the handlers
  passes it on. Behind \<open>auth\<close>, a request the collaborator turns away gets the
  collaborator's answer and the handler does not run.
\<close>

definition dispatch :: "env \<Rightarrow> request \<Rightarrow> state \<Rightarrow> outcome" where
  "dispatch env req st =
     (case find (\<lambda>(m, pat, e). m = req_method req \<and> matches pat (path req)) routes of
        None \<Rightarrow> \<lparr>reply = None, after = st, requested = []\<rparr>
      | Some (m, pat, e) \<Rightarrow>
          (case e of
             Open h \<Rightarrow> h env req st
           | Guarded h \<Rightarrow>
               (case auth env req of
                  Inl denial \<Rightarrow> \<lparr>reply = Some denial, after = st, requested = []\<rparr>
                | Inr uid \<Rightarrow> h env uid req st)))"

text \<open>A sequence of requests, each with the collaborators of its moment.\<close>

fun run :: "(env \<times> request) list \<Rightarrow> state \<Rightarrow> state" where
  "run [] st = st"
| "run ((env, req) # rest) st = run rest (after (dispatch env req st))"

section \<open>Predicates of the claims\<close>

text \<open>
  The product invariant of the data model: when the history is not empty, the current
  price is the price of its last entry.
\<close>

definition price_inv :: "product \<Rightarrow> bool" where
  "price_inv p =
     (priceHistory p = [] \<or> currentPrice p = entry_price (last (priceHistory p)))"

text \<open>The cache holds nothing under a user's key, or there is no cache.\<close>

definition no_entry :: "string \<Rightarrow> state \<Rightarrow> bool" where
  "no_entry uid st = (case redis st of None \<Rightarrow> True | Some c \<Rightarrow> c (cacheKey uid) = None)"

text \<open>A list read answered from the store as it is now, without the cached tag.\<close>

definition fresh_read :: "env \<Rightarrow> string \<Rightarrow> state \<Rightarrow> bool" where
  "fresh_read env uid st =
     (fst (list_products env uid st)
        = \<lparr>status = 200, body = Products (Product_find uid (store st))\<rparr>)"

text \<open>
  What belongs to a user in a state: the user's documents in order, and the cache entry
  under the user's key (with whether there is a cache at all).
\<close>

definition own :: "string \<Rightarrow> state \<Rightarrow> product list \<times> (string \<times> nat) option option" where
  "own uid st =
     (filter (\<lambda>p. userId p = uid) (store st),
      map_option (\<lambda>c. c (cacheKey uid)) (redis st))"

text \<open>The requests the sponsored search takes: \<open>GET /sponsored\<close>.\<close>

definition sponsored_request :: "request \<Rightarrow> bool" where
  "sponsored_request req = (req_method req = GET \<and> matches (Literal ''sponsored'') (path req))"

text \<open>
  An update whose body sets \<open>userId\<close> to another user \<open>v\<close>: \<open>$set\<close> hands the document
  over to \<open>v\<close>.
\<close>

definition hands_over :: "request \<Rightarrow> string \<Rightarrow> bool" where
  "hands_over req v = (req_method req = PUT \<and> b_userId (req_body req) = Some v)"

text \<open>The claim that every endpoint runs behind the authentication collaborator.\<close>

definition behind_auth :: "env \<Rightarrow> request \<Rightarrow> state \<Rightarrow> bool" where
  "behind_auth env req st =
     (case auth env req of
        Inl denial \<Rightarrow>
          reply (dispatch env req st) = None
          \<or> dispatch env req st = \<lparr>reply = Some denial, after = st, requested = []\<rparr>
      | Inr uid \<Rightarrow> True)"

section \<open>Sample collaborators\<close>

text \<open>
  Collaborators for the concrete runs below: a provider that fails with a timeout, one
  whose response has no result collection, a scraper that finds nothing, a schema that
  accepts every document, and an authentication that takes the credential as the
  identity and answers 401 without one.
\<close>

definition sample_env :: env where
  "sample_env =
     \<lparr>SERPAPI_API_KEY = Some ''k1'',
      axios_get = (\<lambda>u. Rejected (Some ''timeout of 10000ms exceeded'')),
      scrapePrice = (\<lambda>u p. Resolved None),
      validation = (\<lambda>p. None),
      JSON_stringify = (\<lambda>ps. ''[]''),
      JSON_parse = (\<lambda>s. Some (Arr [])),
      auth = (\<lambda>r. case authorization r of
                      None \<Rightarrow> Inl \<lparr>status = 401, body = Message ''No token''\<rparr>
                    | Some u \<Rightarrow> Inr u),
      new_id = ''0123456789abcdef01234567'',
      now = 7\<rparr>"

definition sample_request :: request where
  "sample_request =
     \<lparr>req_method = GET, path = [''sponsored''], query_q = Str ''shoes'',
      authorization = None,
      req_body = \<lparr>b_name = None, b_url = None, b_platform = None, b_targetPrice = None,
                   b_currentPrice = None, b_userId = None, b_priceHistory = None,
                   b_views = None\<rparr>\<rparr>"

definition sample_product :: product where
  "sample_product =
     \<lparr>pid = ''0123456789abcdef01234567'', name = Some ''Lamp'',
      product_url = Some ''http://x/lamp'', platform = Some ''amazon'', targetPrice = Some 8,
      currentPrice = 10, userId = ''u1'',
      priceHistory = [\<lparr>entry_price = 10, entry_date = 3\<rparr>], views = 0, createdAt = 3\<rparr>"

definition sample_state :: state where
  "sample_state = \<lparr>store = [sample_product], redis = Some (\<lambda>k. None)\<rparr>"

section \<open>The lowest-price reducer\<close>

lemma non_null_prices_Nil: "non_null_prices [] = []"
  by (simp add: non_null_prices_def map_filter_simps)

lemma non_null_prices_Cons:
  "non_null_prices (it # items) =
     (case price it of None \<Rightarrow> non_null_prices items | Some p \<Rightarrow> p # non_null_prices items)"
  by (simp add: non_null_prices_def map_filter_simps split: option.split)

lemma reduce_step_null: "price it = None \<Longrightarrow> reduce_step acc it = acc"
  by (simp add: reduce_step_def)

lemma reduce_step_first: "price it = Some p \<Longrightarrow> reduce_step None it = Some p"
  by (simp add: reduce_step_def)

lemma reduce_step_min: "price it = Some p \<Longrightarrow> reduce_step (Some a) it = Some (min a p)"
  by (simp add: reduce_step_def)

lemma foldl_reduce_step_Some:
  "foldl reduce_step (Some a) items = Some (Min (insert a (set (non_null_prices items))))"
proof (induction items arbitrary: a)
  case Nil
  show ?case by (simp add: non_null_prices_Nil)
next
  case (Cons it items)
  show ?case
  proof (cases "price it")
    case None
    then show ?thesis
      by (simp add: Cons.IH reduce_step_null non_null_prices_Cons)
  next
    case (Some p)
    have fin: "finite (set (non_null_prices items))" by simp
    have "Min (insert (min a p) (set (non_null_prices items)))
            = Min (insert a (insert p (set (non_null_prices items))))"
    proof (cases "set (non_null_prices items) = {}")
      case True
      then show ?thesis by (simp add: min_def)
    next
      case False
      then show ?thesis using fin by (simp add: min.assoc)
    qed
    with Some show ?thesis
      by (simp add: Cons.IH reduce_step_min non_null_prices_Cons)
  qed
qed

lemma foldl_reduce_step_None:
  "foldl reduce_step None items =
     (if non_null_prices items = [] then None else Some (Min (set (non_null_prices items))))"
proof (induction items)
  case Nil
  show ?case by (simp add: non_null_prices_Nil)
next
  case (Cons it items)
  show ?case
  proof (cases "price it")
    case None
    then show ?thesis
      using Cons.IH by (simp add: reduce_step_null non_null_prices_Cons)
  next
    case (Some p)
    then show ?thesis
      by (simp add: reduce_step_first non_null_prices_Cons foldl_reduce_step_Some)
  qed
qed

lemma non_null_prices_empty_iff:
  "non_null_prices items = [] \<longleftrightarrow> list_all (\<lambda>it. price it = None) items"
  by (induction items) (auto simp: non_null_prices_Nil non_null_prices_Cons split: option.splits)

lemma set_non_null_prices: "set (non_null_prices items) = {p. Some p \<in> price ` set items}"
  by (induction items) (auto simp: non_null_prices_Nil non_null_prices_Cons split: option.splits)

lemma non_null_prices_perm:
  assumes "mset items = mset items'"
  shows "set (non_null_prices items) = set (non_null_prices items')"
proof -
  from assms have "set items = set items'" by (rule mset_eq_setD)
  then show ?thesis by (simp add: set_non_null_prices)
qed

text \<open>
  C5. The lowest-price reducer returns \<open>null\<close> for the empty sequence and for a sequence
  whose prices are all \<open>null\<close>; otherwise it returns the least of the non-null prices; two
  sequences with the same items in any order give the same result. The fold is a total
  function: it has no failing branch.
\<close>

theorem lowestPrice_minimum:
  "lowestPrice [] = None
   \<and> (list_all (\<lambda>it. price it = None) items \<longrightarrow> lowestPrice items = None)
   \<and> (\<not> list_all (\<lambda>it. price it = None) items \<longrightarrow>
        lowestPrice items = Some (Min (set (non_null_prices items)))
        \<and> (\<exists>it \<in> set items. price it = lowestPrice items)
        \<and> (\<forall>it \<in> set items. \<forall>p. price it = Some p \<longrightarrow> the (lowestPrice items) \<le> p))
   \<and> (mset items = mset items' \<longrightarrow> lowestPrice items = lowestPrice items')"
proof (intro conjI impI)
  show "lowestPrice [] = None" by (simp add: lowestPrice_def)
next
  assume "list_all (\<lambda>it. price it = None) items"
  then show "lowestPrice items = None"
    by (simp add: lowestPrice_def foldl_reduce_step_None non_null_prices_empty_iff)
next
  assume some: "\<not> list_all (\<lambda>it. price it = None) items"
  then have ne: "non_null_prices items \<noteq> []"
    by (simp add: non_null_prices_empty_iff)
  then show eq: "lowestPrice items = Some (Min (set (non_null_prices items)))"
    by (simp add: lowestPrice_def foldl_reduce_step_None)
  have "Min (set (non_null_prices items)) \<in> set (non_null_prices items)"
    using ne by (intro Min_in) simp_all
  then show "\<exists>it \<in> set items. price it = lowestPrice items"
    by (auto simp: eq set_non_null_prices)
  show "\<forall>it \<in> set items. \<forall>p. price it = Some p \<longrightarrow> the (lowestPrice items) \<le> p"
  proof (intro ballI allI impI)
    fix it p
    assume "it \<in> set items" and "price it = Some p"
    then have "p \<in> set (non_null_prices items)"
      by (force simp: set_non_null_prices)
    then show "the (lowestPrice items) \<le> p"
      by (simp add: eq)
  qed
next
  assume perm: "mset items = mset items'"
  have "non_null_prices items = [] \<longleftrightarrow> non_null_prices items' = []"
    using non_null_prices_perm [OF perm] by (metis set_empty)
  then show "lowestPrice items = lowestPrice items'"
    by (simp add: lowestPrice_def foldl_reduce_step_None non_null_prices_perm [OF perm])
qed

theorem lowestPrice_minimum_witness:
  "lowestPrice
     [\<lparr>title = Str ''a'', url = Null, seller = Null, price = Some (25/2), raw = []\<rparr>,
      \<lparr>title = Str ''b'', url = Null, seller = Null, price = None, raw = []\<rparr>,
      \<lparr>title = Str ''c'', url = Null, seller = Null, price = Some 8, raw = []\<rparr>]
     = Some 8
   \<and> lowestPrice
     [\<lparr>title = Str ''c'', url = Null, seller = Null, price = Some 8, raw = []\<rparr>,
      \<lparr>title = Str ''b'', url = Null, seller = Null, price = None, raw = []\<rparr>,
      \<lparr>title = Str ''a'', url = Null, seller = Null, price = Some (25/2), raw = []\<rparr>]
     = Some 8
   \<and> lowestPrice
     [\<lparr>title = Str ''b'', url = Null, seller = Null, price = None, raw = []\<rparr>]
     = None"
proof (intro conjI)
  show "lowestPrice
     [\<lparr>title = Str ''a'', url = Null, seller = Null, price = Some (25/2), raw = []\<rparr>,
      \<lparr>title = Str ''b'', url = Null, seller = Null, price = None, raw = []\<rparr>,
      \<lparr>title = Str ''c'', url = Null, seller = Null, price = Some 8, raw = []\<rparr>]
     = Some 8"
    using lowestPrice_minimum
      [of "[\<lparr>title = Str ''a'', url = Null, seller = Null, price = Some (25/2), raw = []\<rparr>,
            \<lparr>title = Str ''b'', url = Null, seller = Null, price = None, raw = []\<rparr>,
            \<lparr>title = Str ''c'', url = Null, seller = Null, price = Some 8, raw = []\<rparr>]" "[]"]
    by (simp add: non_null_prices_def map_filter_simps)
  show "lowestPrice
     [\<lparr>title = Str ''c'', url = Null, seller = Null, price = Some 8, raw = []\<rparr>,
      \<lparr>title = Str ''b'', url = Null, seller = Null, price = None, raw = []\<rparr>,
      \<lparr>title = Str ''a'', url = Null, seller = Null, price = Some (25/2), raw = []\<rparr>]
     = Some 8"
    using lowestPrice_minimum
      [of "[\<lparr>title = Str ''c'', url = Null, seller = Null, price = Some 8, raw = []\<rparr>,
            \<lparr>title = Str ''b'', url = Null, seller = Null, price = None, raw = []\<rparr>,
            \<lparr>title = Str ''a'', url = Null, seller = Null, price = Some (25/2), raw = []\<rparr>]" "[]"]
    by (simp add: non_null_prices_def map_filter_simps)
  show "lowestPrice
     [\<lparr>title = Str ''b'', url = Null, seller = Null, price = None, raw = []\<rparr>]
     = None"
    using lowestPrice_minimum
      [of "[\<lparr>title = Str ''b'', url = Null, seller = Null, price = None, raw = []\<rparr>]" "[]"]
    by simp
qed

section \<open>The price parser on numeric runs\<close>






























section \<open>The offer normalizer on candidates\<close>

lemma first_truthy_present:
  "list_all (\<lambda>v. v = Undefined \<or> truthy v) cands \<Longrightarrow>
     first_truthy cands d = first_present cands d"
proof -
  assume "list_all (\<lambda>v. v = Undefined \<or> truthy v) cands"
  then have "filter truthy cands = filter (\<lambda>v. v \<noteq> Undefined) cands"
    by (induction cands) auto
  then show ?thesis by (simp add: first_truthy_def first_present_def)
qed

lemma first_thrown_append_Inr:
  "first_thrown (xs @ Inr v # ys) =
     (case first_thrown xs of
        Inl e \<Rightarrow> Inl e
      | Inr vs \<Rightarrow> (case first_thrown ys of Inl e \<Rightarrow> Inl e | Inr ws \<Rightarrow> Inr (vs @ v # ws)))"
  by (induction xs) (auto split: sum.splits)

lemma first_thrown_append:
  "first_thrown (xs @ ys) =
     (case first_thrown xs of
        Inl e \<Rightarrow> Inl e
      | Inr vs \<Rightarrow> (case first_thrown ys of Inl e \<Rightarrow> Inl e | Inr ws \<Rightarrow> Inr (vs @ ws)))"
  by (induction xs) (auto split: sum.splits)

lemma to_string_TypeError: "to_string v = Inl e \<Longrightarrow> e = TypeError"
proof (induction v arbitrary: e rule: to_string.induct)
  case (6 xs)
  let ?f = "\<lambda>v. if v = Undefined \<or> v = Null then Inr [] else to_string v"
  have "first_thrown (map ?f xs) = Inl e"
    using "6.prems" by (simp split: sum.splits)
  then have "\<exists>v \<in> set xs. ?f v = Inl e"
    by (induction xs) (auto split: sum.splits if_splits)
  then obtain v where "v \<in> set xs" "\<not> (v = Undefined \<or> v = Null)" "to_string v = Inl e"
    by (auto split: if_splits)
  then show ?case by (intro "6.IH")
qed (simp_all split: if_splits)

lemma normalize_offer_TypeError: "normalize_offer r = Inl e \<Longrightarrow> e = TypeError"
  by (auto simp: normalize_offer_def parse_price_def Let_def dest: to_string_TypeError
      split: sum.splits if_splits)

lemma map_results_TypeError: "map_results rs = Inl e \<Longrightarrow> e = TypeError"
proof -
  assume "map_results rs = Inl e"
  then have "\<exists>r \<in> set rs. normalize_offer r = Inl e"
    unfolding map_results_def by (induction rs) (auto split: sum.splits)
  then show ?thesis by (auto dest: normalize_offer_TypeError)
qed

text \<open>
  C7, as amended. Each normalized field is the first truthy candidate in the stated order
  (title, product_title, name; link, product_link, offer_link, source; source, merchant,
  store), else the empty string; the price is the price parser applied to the first
  truthy one of price and extracted_price, else \<open>null\<close>; the raw record is kept as it is.
  When no candidate is present with a falsy value, this is the first present candidate.
\<close>

theorem normalize_first_truthy:
  "normalize_offer r =
     map_sum id
       (\<lambda>parsed.
          \<lparr>title = first_truthy [js_get r ''title'', js_get r ''product_title'', js_get r ''name'']
                     (Str []),
           url = first_truthy [js_get r ''link'', js_get r ''product_link'',
                               js_get r ''offer_link'', js_get r ''source''] (Str []),
           seller = first_truthy [js_get r ''source'', js_get r ''merchant'', js_get r ''store'']
                      (Str []),
           price = parsed,
           raw = r\<rparr>)
       (parse_price (first_truthy [js_get r ''price'', js_get r ''extracted_price''] Null))
   \<and> (list_all (\<lambda>k. js_get r k = Undefined \<or> truthy (js_get r k))
         [''title'', ''product_title'', ''name'', ''link'', ''product_link'', ''offer_link'',
          ''source'', ''merchant'', ''store'', ''price'', ''extracted_price'']
       \<longrightarrow> normalize_offer r = spec_normalize r)"
proof (intro conjI impI)
  show eq: "normalize_offer r =
     map_sum id
       (\<lambda>parsed.
          \<lparr>title = first_truthy [js_get r ''title'', js_get r ''product_title'', js_get r ''name'']
                     (Str []),
           url = first_truthy [js_get r ''link'', js_get r ''product_link'',
                               js_get r ''offer_link'', js_get r ''source''] (Str []),
           seller = first_truthy [js_get r ''source'', js_get r ''merchant'', js_get r ''store'']
                      (Str []),
           price = parsed,
           raw = r\<rparr>)
       (parse_price (first_truthy [js_get r ''price'', js_get r ''extracted_price''] Null))"
  proof -
    have t: "js_or (js_or (js_or (js_get r ''title'') (js_get r ''product_title''))
                     (js_get r ''name'')) (Str [])
             = first_truthy [js_get r ''title'', js_get r ''product_title'', js_get r ''name'']
                 (Str [])"
      by (simp add: js_or_def first_truthy_def)
    have u: "js_or (js_or (js_or (js_or (js_get r ''link'') (js_get r ''product_link''))
                     (js_get r ''offer_link'')) (js_get r ''source'')) (Str [])
             = first_truthy [js_get r ''link'', js_get r ''product_link'',
                             js_get r ''offer_link'', js_get r ''source''] (Str [])"
      by (simp add: js_or_def first_truthy_def)
    have s: "js_or (js_or (js_or (js_get r ''source'') (js_get r ''merchant''))
                     (js_get r ''store'')) (Str [])
             = first_truthy [js_get r ''source'', js_get r ''merchant'', js_get r ''store'']
                 (Str [])"
      by (simp add: js_or_def first_truthy_def)
    have p: "js_or (js_or (js_or (js_get r ''price'') (js_get r ''extracted_price''))
                     (js_get r ''price'')) Null
             = first_truthy [js_get r ''price'', js_get r ''extracted_price''] Null"
      by (simp add: js_or_def first_truthy_def)
    show ?thesis
      unfolding normalize_offer_def Let_def t u s p
      by (cases "parse_price (first_truthy [js_get r ''price'', js_get r ''extracted_price''] Null)")
        simp_all
  qed
  assume "list_all (\<lambda>k. js_get r k = Undefined \<or> truthy (js_get r k))
         [''title'', ''product_title'', ''name'', ''link'', ''product_link'', ''offer_link'',
          ''source'', ''merchant'', ''store'', ''price'', ''extracted_price'']"
  then have "first_truthy [js_get r ''title'', js_get r ''product_title'', js_get r ''name'']
               (Str [])
             = first_present [js_get r ''title'', js_get r ''product_title'', js_get r ''name'']
                 (Str [])"
    "first_truthy [js_get r ''link'', js_get r ''product_link'', js_get r ''offer_link'',
                   js_get r ''source''] (Str [])
       = first_present [js_get r ''link'', js_get r ''product_link'', js_get r ''offer_link'',
                        js_get r ''source''] (Str [])"
    "first_truthy [js_get r ''source'', js_get r ''merchant'', js_get r ''store''] (Str [])
       = first_present [js_get r ''source'', js_get r ''merchant'', js_get r ''store''] (Str [])"
    "first_truthy [js_get r ''price'', js_get r ''extracted_price''] Null
       = first_present [js_get r ''price'', js_get r ''extracted_price''] Null"
    by (simp_all add: first_truthy_present)
  then show "normalize_offer r = spec_normalize r"
    unfolding eq spec_normalize_def by simp
qed

theorem normalize_first_truthy_witness:
  "normalize_offer
     [(''title'', Str ''A''), (''product_title'', Str ''B''), (''price'', Str ''$12.50'')]
     = spec_normalize
         [(''title'', Str ''A''), (''product_title'', Str ''B''), (''price'', Str ''$12.50'')]
   \<and> normalize_offer
         [(''title'', Str ''A''), (''product_title'', Str ''B''), (''price'', Str ''$12.50'')]
       = Inr \<lparr>title = Str ''A'', url = Str [], seller = Str [], price = Some (25 / 2),
              raw = [(''title'', Str ''A''), (''product_title'', Str ''B''),
                     (''price'', Str ''$12.50'')]\<rparr>"
proof -
  have p: "parse_price (Str ''$12.50'') = Inr (Some (25 / 2))"
    by (simp add: parse_price_def strip_def kept_def is_digit_def parseFloat_def
        unsigned_literal_def digits_val_def digit_val_def)
  show ?thesis
    using normalize_first_truthy
      [of "[(''title'', Str ''A''), (''product_title'', Str ''B''), (''price'', Str ''$12.50'')]"]
    by (simp add: js_get_def first_truthy_def spec_normalize_def first_present_def p)
qed

text \<open>
  C7 as stated fails: a present empty title does not win over \<open>product_title\<close>, and a
  present price of zero does not win over \<open>extracted_price\<close>.
\<close>

theorem normalize_first_present_counterexample:
  "map_sum id title (normalize_offer [(''title'', Str []), (''product_title'', Str ''B'')])
     = Inr (Str ''B'')
   \<and> map_sum id title (spec_normalize [(''title'', Str []), (''product_title'', Str ''B'')])
       = Inr (Str [])
   \<and> map_sum id price (normalize_offer [(''price'', Num 0), (''extracted_price'', Num 5)])
       = Inr (Some 5)
   \<and> map_sum id price (spec_normalize [(''price'', Num 0), (''extracted_price'', Num 5)])
       = Inr (Some 0)"
  by code_simp

text \<open>
  C10. Candidates are chosen by truthiness: a record whose price is the number zero and
  that has no extracted price is normalized without an error to an offer with the price
  \<open>null\<close>, so leaving the record out of the results changes neither the lowest price nor
  whether the mapping throws; a present empty title falls through to the next title
  candidates in the offer the record gives.
\<close>

theorem zero_price_dropped:
  "(js_get r ''price'' = Num 0 \<and> js_get r ''extracted_price'' = Undefined \<longrightarrow>
      map_sum id price (normalize_offer r) = Inr None
      \<and> map_sum id lowestPrice (map_results (rs @ r # rs'))
          = map_sum id lowestPrice (map_results (rs @ rs')))
   \<and> (js_get r ''title'' = Str [] \<and> normalize_offer r = Inr offer \<longrightarrow>
        title offer = js_or (js_or (js_get r ''product_title'') (js_get r ''name'')) (Str []))"
proof (intro conjI impI)
  assume a: "js_get r ''price'' = Num 0 \<and> js_get r ''extracted_price'' = Undefined"
  then obtain offer where o: "normalize_offer r = Inr offer" "price offer = None"
    by (simp add: normalize_offer_def js_or_def parse_price_def)
  then show "map_sum id price (normalize_offer r) = Inr None" by simp
  show "map_sum id lowestPrice (map_results (rs @ r # rs'))
          = map_sum id lowestPrice (map_results (rs @ rs'))"
    by (simp add: map_results_def first_thrown_append_Inr first_thrown_append o lowestPrice_def
        reduce_step_null split: sum.split)
next
  assume "js_get r ''title'' = Str [] \<and> normalize_offer r = Inr offer"
  then show "title offer = js_or (js_or (js_get r ''product_title'') (js_get r ''name'')) (Str [])"
    by (auto simp: normalize_offer_def js_or_def Let_def split: sum.splits)
qed

theorem zero_price_dropped_witness:
  "map_sum id price
     (normalize_offer [(''title'', Str []), (''name'', Str ''Free sample''), (''price'', Num 0)])
     = Inr None
   \<and> map_sum id lowestPrice
        (map_results
           [[(''title'', Str []), (''name'', Str ''Free sample''), (''price'', Num 0)],
            [(''title'', Str ''Paid''), (''price'', Num 5)]]) = Inr (Some 5)
   \<and> map_sum id title
        (normalize_offer [(''title'', Str []), (''name'', Str ''Free sample''), (''price'', Num 0)])
       = Inr (Str ''Free sample'')"
proof -
  have five: "map_sum id lowestPrice (map_results [[(''title'', Str ''Paid''), (''price'', Num 5)]])
                = Inr (Some 5)"
    by code_simp
  have free: "normalize_offer
                [(''title'', Str []), (''name'', Str ''Free sample''), (''price'', Num 0)]
              = Inr \<lparr>title = Str ''Free sample'', url = Str [], seller = Str [], price = None,
                     raw = [(''title'', Str []), (''name'', Str ''Free sample''),
                            (''price'', Num 0)]\<rparr>"
    by (simp add: normalize_offer_def js_or_def js_get_def parse_price_def)
  let ?r = "[(''title'', Str []), (''name'', Str ''Free sample''), (''price'', Num 0)]"
  let ?offer = "\<lparr>title = Str ''Free sample'', url = Str [], seller = Str [], price = None,
                 raw = ?r\<rparr>"
  note inst = zero_price_dropped [of ?r "[]" "[[(''title'', Str ''Paid''), (''price'', Num 5)]]" ?offer]
  have zero: "js_get ?r ''price'' = Num 0 \<and> js_get ?r ''extracted_price'' = Undefined"
    by (simp add: js_get_def)
  have empty: "js_get ?r ''title'' = Str [] \<and> normalize_offer ?r = Inr ?offer"
    using free by (simp add: js_get_def)
  from inst zero have 1: "map_sum id price (normalize_offer ?r) = Inr None"
    and 2: "map_sum id lowestPrice
              (map_results ([] @ ?r # [[(''title'', Str ''Paid''), (''price'', Num 5)]]))
            = map_sum id lowestPrice
                (map_results ([] @ [[(''title'', Str ''Paid''), (''price'', Num 5)]]))"
    by blast+
  from inst empty have "title ?offer
      = js_or (js_or (js_get ?r ''product_title'') (js_get ?r ''name'')) (Str [])"
    by blast
  then have 3: "map_sum id title (normalize_offer ?r) = Inr (Str ''Free sample'')"
    unfolding free by simp
  from 2 five have 4: "map_sum id lowestPrice
        (map_results [?r, [(''title'', Str ''Paid''), (''price'', Num 5)]]) = Inr (Some 5)"
    by simp
  from 1 4 3 show ?thesis by blast
qed

section \<open>The sponsored search gateway\<close>

text \<open>
  C9. An absent query, or one that trims to the empty string, is answered 400 and no
  provider call is made. With a query that is not empty, a missing or empty API key is
  answered 500 with the configuration message and no provider call. A provider call that
  fails is answered 500 with the fetch message, which differs from the other two, and
  with the upstream error's message when it has one. A provider response without data or
  without a result collection gives no items and the lowest price \<open>null\<close>.
\<close>

theorem sponsored_errors:
  "((query_q req = Undefined \<or> (\<exists>s. query_q req = Str s \<and> trim s = [])) \<longrightarrow>
      sponsored env req = (\<lparr>status = 400, body = Message ''Missing query parameter `q`''\<rparr>, []))
   \<and> (query_q req = Str s \<and> trim s \<noteq> [] \<longrightarrow>
        ((SERPAPI_API_KEY env = None \<or> SERPAPI_API_KEY env = Some []) \<longrightarrow>
           sponsored env req =
             (\<lparr>status = 500, body = Message ''SERPAPI_API_KEY not configured on server''\<rparr>, []))
        \<and> (SERPAPI_API_KEY env = Some k \<and> k \<noteq> [] \<longrightarrow>
             (axios_get env (search_url (trim s) k) = Rejected m \<longrightarrow>
                sponsored env req =
                  (\<lparr>status = 500,
                    body = MessageError ''Error fetching sponsored results'' (Rejection m)\<rparr>,
                   [search_url (trim s) k])
                \<and> fst (sponsored env req) = sponsored_catch (Rejection m))
             \<and> (axios_get env (search_url (trim s) k) = Resolved resp
                  \<and> (data resp = None \<or> (\<exists>d. data resp = Some d \<and> shopping_results d = None)) \<longrightarrow>
                  sponsored env req =
                    (\<lparr>status = 200, body = SponsoredResult [] None\<rparr>, [search_url (trim s) k]))))
   \<and> sponsored_catch (Rejection m)
        \<noteq> \<lparr>status = 400, body = Message ''Missing query parameter `q`''\<rparr>
   \<and> sponsored_catch (Rejection m)
        \<noteq> \<lparr>status = 500, body = Message ''SERPAPI_API_KEY not configured on server''\<rparr>"
proof -
  have trim_Nil: "trim [] = []" by (simp add: trim_def)
  show ?thesis
    by (auto simp: sponsored_def js_or_def sponsored_catch_def lowestPrice_def Let_def trim_Nil
        map_results_def)
qed

theorem sponsored_errors_witness:
  "sponsored sample_env (sample_request\<lparr>query_q := Str ''  ''\<rparr>)
     = (\<lparr>status = 400, body = Message ''Missing query parameter `q`''\<rparr>, [])
   \<and> sponsored (sample_env\<lparr>SERPAPI_API_KEY := None\<rparr>) sample_request
     = (\<lparr>status = 500, body = Message ''SERPAPI_API_KEY not configured on server''\<rparr>, [])
   \<and> sponsored sample_env sample_request
     = (\<lparr>status = 500,
         body = MessageError ''Error fetching sponsored results''
                  (Rejection (Some ''timeout of 10000ms exceeded''))\<rparr>,
        [search_url ''shoes'' ''k1''])
   \<and> sponsored (sample_env\<lparr>axios_get := (\<lambda>u. Resolved \<lparr>data = None\<rparr>)\<rparr>) sample_request
     = (\<lparr>status = 200, body = SponsoredResult [] None\<rparr>, [search_url ''shoes'' ''k1''])"
proof -
  have blank: "trim ''  '' = []" and shoes: "trim ''shoes'' = ''shoes''"
    by (simp_all add: trim_def is_space_def)
  show ?thesis
    using sponsored_errors
            [of "sample_request\<lparr>query_q := Str ''  ''\<rparr>" sample_env "[]" "[]" None
                "\<lparr>data = None\<rparr>"]
          sponsored_errors
            [of sample_request "sample_env\<lparr>SERPAPI_API_KEY := None\<rparr>" "''shoes''" "[]" None
                "\<lparr>data = None\<rparr>"]
          sponsored_errors
            [of sample_request sample_env "''shoes''" "''k1''"
                "Some ''timeout of 10000ms exceeded''" "\<lparr>data = None\<rparr>"]
          sponsored_errors
            [of sample_request "sample_env\<lparr>axios_get := (\<lambda>u. Resolved \<lparr>data = None\<rparr>)\<rparr>"
                "''shoes''" "''k1''" None "\<lparr>data = None\<rparr>"]
    by (simp add: sample_env_def sample_request_def blank shoes)
qed

section \<open>Creation and the price invariant\<close>

lemma store_invalidate: "store (invalidate uid st) = store st"
  by (simp add: invalidate_def split: option.split)

lemma list_all_update_first:
  "list_all P xs \<Longrightarrow> (\<And>x. P x \<Longrightarrow> Q x \<Longrightarrow> P (f x)) \<Longrightarrow> list_all P (update_first Q f xs)"
  by (induction xs) auto

lemma list_all_remove_first: "list_all P xs \<Longrightarrow> list_all P (remove_first Q xs)"
  by (induction xs) auto

lemma find_list_all: "find Q xs = Some x \<Longrightarrow> list_all P xs \<Longrightarrow> P x"
  by (induction xs) (auto split: if_splits)

lemma price_inv_new_product: "price_inv (new_product env uid b priceData)"
  by (simp add: price_inv_def new_product_def split: option.split)

lemma price_inv_views: "price_inv p \<Longrightarrow> price_inv (p\<lparr>views := n\<rparr>)"
  by (simp add: price_inv_def)

lemma price_inv_apply_set:
  "b_currentPrice b = None \<Longrightarrow> b_priceHistory b = None \<Longrightarrow> price_inv p \<Longrightarrow>
     price_inv (apply_set b p)"
  by (simp add: price_inv_def apply_set_def)

lemma price_inv_create:
  "list_all price_inv (store st) \<Longrightarrow> list_all price_inv (store (snd (create env uid b st)))"
  by (simp add: create_def Let_def store_invalidate price_inv_new_product
      split: option.split awaited.split)

lemma price_inv_read_one:
  assumes "list_all price_inv (store st)"
  shows "list_all price_inv (store (snd (read_one env uid param st)))"
proof (cases "ObjectId_cast param")
  case None
  with assms show ?thesis by (simp add: read_one_def)
next
  case (Some oid)
  show ?thesis
  proof (cases "find (owned oid uid) (store st)")
    case None
    with assms \<open>ObjectId_cast param = Some oid\<close> show ?thesis by (simp add: read_one_def)
  next
    case (Some found)
    then have "price_inv found" using assms by (rule find_list_all)
    then have "price_inv (found\<lparr>views := views found + 1\<rparr>)" by (rule price_inv_views)
    then have "list_all price_inv
                 (update_first (\<lambda>p. pid p = pid found) (\<lambda>p. found\<lparr>views := views found + 1\<rparr>)
                    (store st))"
      using assms by (intro list_all_update_first)
    with Some assms \<open>ObjectId_cast param = Some oid\<close> show ?thesis
      by (simp add: read_one_def Let_def split: option.split)
  qed
qed

lemma price_inv_delete:
  "list_all price_inv (store st) \<Longrightarrow> list_all price_inv (store (snd (delete env uid oid st)))"
  by (simp add: delete_def store_invalidate list_all_remove_first split: option.split)

lemma price_inv_list:
  "list_all price_inv (store st) \<Longrightarrow> list_all price_inv (store (snd (list_products env uid st)))"
  by (auto simp: list_products_def Let_def split: option.split)

lemma price_inv_update:
  assumes "list_all price_inv (store st)" "b_currentPrice b = None" "b_priceHistory b = None"
  shows "list_all price_inv (store (snd (update env uid oid b st)))"
proof -
  have "list_all price_inv (update_first (owned i uid) (apply_set b) (store st))" for i
    using assms by (intro list_all_update_first price_inv_apply_set)
  with assms(1) show ?thesis
    by (simp add: update_def store_invalidate split: option.split)
qed

lemma create_accepted:
  "scrapePrice env (b_url b) (b_platform b) = Resolved priceData \<Longrightarrow>
     validation env (new_product env uid b priceData) = None \<Longrightarrow>
     create env uid b st
       = (\<lparr>status = 201,
           body = MessageProduct ''Product added successfully'' (new_product env uid b priceData)\<rparr>,
          invalidate uid (st\<lparr>store := store st @ [new_product env uid b priceData]\<rparr>))"
  by (simp add: create_def Let_def)

lemma create_refused:
  "scrapePrice env (b_url b) (b_platform b) = Resolved priceData \<Longrightarrow>
     validation env (new_product env uid b priceData) = Some m \<Longrightarrow>
     create env uid b st
       = (\<lparr>status = 500, body = MessageError ''Error adding product'' (Rejection (Some m))\<rparr>, st)"
  by (simp add: create_def Let_def)

lemma new_product_priced:
  "new_product env uid b (Some p)
     = \<lparr>pid = new_id env, name = b_name b, product_url = b_url b, platform = b_platform b,
        targetPrice = b_targetPrice b, currentPrice = p, userId = uid,
        priceHistory = [\<lparr>entry_price = p, entry_date = now env\<rparr>],
        views = 0, createdAt = now env\<rparr>"
  by (simp add: new_product_def)

lemma new_product_unpriced:
  "new_product env uid b None
     = \<lparr>pid = new_id env, name = b_name b, product_url = b_url b, platform = b_platform b,
        targetPrice = b_targetPrice b, currentPrice = 0, userId = uid, priceHistory = [],
        views = 0, createdAt = now env\<rparr>"
  by (simp add: new_product_def)

text \<open>
  C1, as amended. If every product in the store satisfies the invariant (a non-empty
  history ends in the current price), so does every product after a create, whatever the
  scrape gave, after a view, after a delete, after a list read, and after an update whose
  body sets neither the current price nor the history. A product created from a
  successful scrape has exactly one history entry, with the scraped price, and that price
  as its current price.
\<close>

theorem price_inv_preserved:
  "(list_all price_inv (store st) \<longrightarrow>
      list_all price_inv (store (snd (create env uid b st)))
      \<and> list_all price_inv (store (snd (read_one env uid oid st)))
      \<and> list_all price_inv (store (snd (delete env uid oid st)))
      \<and> list_all price_inv (store (snd (list_products env uid st)))
      \<and> (b_currentPrice b = None \<and> b_priceHistory b = None \<longrightarrow>
           list_all price_inv (store (snd (update env uid oid b st)))))
   \<and> (scrapePrice env (b_url b) (b_platform b) = Resolved (Some p)
        \<and> validation env (new_product env uid b (Some p)) = None \<longrightarrow>
        store (snd (create env uid b st)) = store st @ [new_product env uid b (Some p)])
   \<and> priceHistory (new_product env uid b (Some p)) = [\<lparr>entry_price = p, entry_date = now env\<rparr>]
   \<and> currentPrice (new_product env uid b (Some p)) = p"
proof (intro conjI impI)
  assume "scrapePrice env (b_url b) (b_platform b) = Resolved (Some p)
          \<and> validation env (new_product env uid b (Some p)) = None"
  then show "store (snd (create env uid b st)) = store st @ [new_product env uid b (Some p)]"
    by (simp add: create_accepted store_invalidate)
qed (simp_all add: price_inv_create price_inv_read_one price_inv_delete price_inv_list
      price_inv_update new_product_priced)

theorem price_inv_preserved_witness:
  "list_all price_inv
     (store (snd (create (sample_env\<lparr>scrapePrice := (\<lambda>u p. Resolved (Some (1999 / 100)))\<rparr>) ''u1''
                    (req_body sample_request) sample_state)))
   \<and> list_all price_inv
       (store (snd (read_one sample_env ''u1'' ''0123456789abcdef01234567'' sample_state)))
   \<and> list_all price_inv
       (store (snd (delete sample_env ''u1'' ''0123456789abcdef01234567'' sample_state)))
   \<and> list_all price_inv
       (store (snd (update sample_env ''u1'' ''0123456789abcdef01234567''
                      (req_body sample_request\<lparr>b_targetPrice := Some 9\<rparr>) sample_state)))
   \<and> store (snd (create (sample_env\<lparr>scrapePrice := (\<lambda>u p. Resolved (Some (1999 / 100)))\<rparr>)
                     ''u1'' (req_body sample_request) sample_state))
       = [sample_product,
          new_product sample_env ''u1'' (req_body sample_request) (Some (1999 / 100))]
   \<and> priceHistory (new_product sample_env ''u1'' (req_body sample_request) (Some (1999 / 100)))
       = [\<lparr>entry_price = 1999 / 100, entry_date = 7\<rparr>]
   \<and> currentPrice (new_product sample_env ''u1'' (req_body sample_request) (Some (1999 / 100)))
       = 1999 / 100"
proof -
  let ?env = "sample_env\<lparr>scrapePrice := (\<lambda>u p. Resolved (Some (1999 / 100)))\<rparr>"
  have inv: "list_all price_inv (store sample_state)"
    by (simp add: sample_state_def sample_product_def price_inv_def)
  have same: "new_product ?env ''u1'' (req_body sample_request) (Some (1999 / 100))
              = new_product sample_env ''u1'' (req_body sample_request) (Some (1999 / 100))"
    by (simp add: new_product_def sample_env_def)
  have ok: "scrapePrice ?env (b_url (req_body sample_request)) (b_platform (req_body sample_request))
              = Resolved (Some (1999 / 100))
            \<and> validation ?env
                 (new_product ?env ''u1'' (req_body sample_request) (Some (1999 / 100))) = None"
    by (simp add: sample_env_def)
  have st: "store sample_state = [sample_product]" and n: "now ?env = 7"
    by (simp_all add: sample_state_def sample_env_def)
  note a = price_inv_preserved
        [of sample_state ?env "''u1''" "req_body sample_request" "''0123456789abcdef01234567''"
            "1999 / 100"]
  note b = price_inv_preserved
        [of sample_state sample_env "''u1''"
            "req_body sample_request\<lparr>b_targetPrice := Some 9\<rparr>" "''0123456789abcdef01234567''" 0]
  from a inv have 1: "list_all price_inv
     (store (snd (create ?env ''u1'' (req_body sample_request) sample_state)))" by blast
  from b inv have 2: "list_all price_inv
       (store (snd (read_one sample_env ''u1'' ''0123456789abcdef01234567'' sample_state)))"
    and 3: "list_all price_inv
       (store (snd (delete sample_env ''u1'' ''0123456789abcdef01234567'' sample_state)))"
    by blast+
  have "b_currentPrice (req_body sample_request\<lparr>b_targetPrice := Some 9\<rparr>) = None
        \<and> b_priceHistory (req_body sample_request\<lparr>b_targetPrice := Some 9\<rparr>) = None"
    by (simp add: sample_request_def)
  with b inv have 4: "list_all price_inv
       (store (snd (update sample_env ''u1'' ''0123456789abcdef01234567''
                      (req_body sample_request\<lparr>b_targetPrice := Some 9\<rparr>) sample_state)))"
    by blast
  from a ok have "store (snd (create ?env ''u1'' (req_body sample_request) sample_state))
       = store sample_state
           @ [new_product ?env ''u1'' (req_body sample_request) (Some (1999 / 100))]"
    by blast
  then have 5: "store (snd (create ?env ''u1'' (req_body sample_request) sample_state))
       = [sample_product,
          new_product sample_env ''u1'' (req_body sample_request) (Some (1999 / 100))]"
    by (simp add: same st)
  from a have "priceHistory (new_product ?env ''u1'' (req_body sample_request) (Some (1999 / 100)))
       = [\<lparr>entry_price = 1999 / 100, entry_date = now ?env\<rparr>]"
    and "currentPrice (new_product ?env ''u1'' (req_body sample_request) (Some (1999 / 100)))
       = 1999 / 100"
    by blast+
  then have 6: "priceHistory
        (new_product sample_env ''u1'' (req_body sample_request) (Some (1999 / 100)))
       = [\<lparr>entry_price = 1999 / 100, entry_date = 7\<rparr>]"
    and 7: "currentPrice
        (new_product sample_env ''u1'' (req_body sample_request) (Some (1999 / 100)))
       = 1999 / 100"
    unfolding same n by simp_all
  from 1 2 3 4 5 6 7 show ?thesis by blast
qed

text \<open>
  C1 as stated fails: an update whose body sets \<open>currentPrice\<close> to 5 on a product whose
  history ends at 10 leaves a product that breaks the invariant.
\<close>

theorem price_inv_update_counterexample:
  "list_all price_inv (store sample_state)
   \<and> \<not> list_all price_inv
         (store (snd (update sample_env ''u1'' ''0123456789abcdef01234567''
                        (req_body sample_request\<lparr>b_currentPrice := Some 5\<rparr>) sample_state)))"
proof -
  have cast: "ObjectId_cast ''0123456789abcdef01234567'' = Some ''0123456789abcdef01234567''"
    by (simp add: ObjectId_cast_def to_lower_def)
  show ?thesis
    by (simp add: price_inv_def sample_state_def sample_product_def sample_request_def
        update_def cast owned_def apply_set_def store_invalidate)
qed

text \<open>
  C3, as amended. For a create request whose scrape call returns: an absent result gives
  a document with current price 0 and an empty history, and a price \<open>p\<close> gives one with
  current price \<open>p\<close> and a history of the one entry \<open>p\<close>, the other fields coming from the
  body, the acting user and the moment; the document is answered with 201, stored and
  the user's cache entry dropped exactly when the store accepts it on \<open>save\<close>, and a
  document the store rejects is answered 500 and nothing is stored.
\<close>

theorem create_without_price:
  "(scrapePrice env (b_url b) (b_platform b) = Resolved priceData \<longrightarrow>
      (validation env (new_product env uid b priceData) = None \<longrightarrow>
         create env uid b st
           = (\<lparr>status = 201,
               body = MessageProduct ''Product added successfully''
                        (new_product env uid b priceData)\<rparr>,
              invalidate uid (st\<lparr>store := store st @ [new_product env uid b priceData]\<rparr>)))
      \<and> (validation env (new_product env uid b priceData) = Some m \<longrightarrow>
           create env uid b st
             = (\<lparr>status = 500,
                 body = MessageError ''Error adding product'' (Rejection (Some m))\<rparr>, st))
      \<and> (status (fst (create env uid b st)) = 201
           \<longleftrightarrow> validation env (new_product env uid b priceData) = None))
   \<and> new_product env uid b None
       = \<lparr>pid = new_id env, name = b_name b, product_url = b_url b, platform = b_platform b,
          targetPrice = b_targetPrice b, currentPrice = 0, userId = uid, priceHistory = [],
          views = 0, createdAt = now env\<rparr>
   \<and> new_product env uid b (Some p)
       = \<lparr>pid = new_id env, name = b_name b, product_url = b_url b, platform = b_platform b,
          targetPrice = b_targetPrice b, currentPrice = p, userId = uid,
          priceHistory = [\<lparr>entry_price = p, entry_date = now env\<rparr>],
          views = 0, createdAt = now env\<rparr>"
proof (intro conjI impI)
  assume s: "scrapePrice env (b_url b) (b_platform b) = Resolved priceData"
  show "status (fst (create env uid b st)) = 201
          \<longleftrightarrow> validation env (new_product env uid b priceData) = None"
  proof (cases "validation env (new_product env uid b priceData)")
    case None
    with s show ?thesis by (simp add: create_accepted)
  next
    case (Some m)
    with s show ?thesis by (simp add: create_refused)
  qed
qed (simp_all add: create_accepted create_refused new_product_priced new_product_unpriced)

theorem create_without_price_witness:
  "fst (create sample_env ''u1'' (req_body sample_request\<lparr>b_name := Some ''Lamp''\<rparr>) sample_state)
     = \<lparr>status = 201,
        body = MessageProduct ''Product added successfully''
                 \<lparr>pid = ''0123456789abcdef01234567'', name = Some ''Lamp'', product_url = None,
                  platform = None, targetPrice = None, currentPrice = 0, userId = ''u1'',
                  priceHistory = [], views = 0, createdAt = 7\<rparr>\<rparr>
   \<and> store (snd (create sample_env ''u1'' (req_body sample_request\<lparr>b_name := Some ''Lamp''\<rparr>)
                     sample_state))
       = [sample_product,
          \<lparr>pid = ''0123456789abcdef01234567'', name = Some ''Lamp'', product_url = None,
           platform = None, targetPrice = None, currentPrice = 0, userId = ''u1'',
           priceHistory = [], views = 0, createdAt = 7\<rparr>]
   \<and> fst (create (sample_env\<lparr>validation := (\<lambda>p. Some ''Product validation failed'')\<rparr>) ''u1''
              (req_body sample_request) sample_state)
       = \<lparr>status = 500,
          body = MessageError ''Error adding product''
                   (Rejection (Some ''Product validation failed''))\<rparr>"
proof -
  let ?b = "req_body sample_request\<lparr>b_name := Some ''Lamp''\<rparr>"
  let ?strict = "sample_env\<lparr>validation := (\<lambda>p. Some ''Product validation failed'')\<rparr>"
  let ?doc = "\<lparr>pid = ''0123456789abcdef01234567'', name = Some ''Lamp'', product_url = None,
               platform = None, targetPrice = None, currentPrice = 0, userId = ''u1'',
               priceHistory = [], views = 0, createdAt = 7\<rparr>"
  have s1: "scrapePrice sample_env (b_url ?b) (b_platform ?b) = Resolved None"
    and v1: "validation sample_env (new_product sample_env ''u1'' ?b None) = None"
    by (simp_all add: sample_env_def)
  have s2: "scrapePrice ?strict (b_url (req_body sample_request))
              (b_platform (req_body sample_request)) = Resolved None"
    and v2: "validation ?strict (new_product ?strict ''u1'' (req_body sample_request) None)
              = Some ''Product validation failed''"
    by (simp_all add: sample_env_def)
  note a = create_without_price [of sample_env ?b None "''u1''" sample_state "[]" 0]
  note c = create_without_price
    [of ?strict "req_body sample_request" None "''u1''" sample_state "''Product validation failed''" 0]
  from a have doc: "new_product sample_env ''u1'' ?b None = ?doc"
    by (simp add: sample_env_def sample_request_def)
  from a s1 v1 have "create sample_env ''u1'' ?b sample_state
      = (\<lparr>status = 201,
          body = MessageProduct ''Product added successfully'' (new_product sample_env ''u1'' ?b None)\<rparr>,
         invalidate ''u1''
           (sample_state\<lparr>store := store sample_state @ [new_product sample_env ''u1'' ?b None]\<rparr>))"
    by blast
  then have 1: "fst (create sample_env ''u1'' ?b sample_state)
      = \<lparr>status = 201, body = MessageProduct ''Product added successfully'' ?doc\<rparr>"
    and 2: "store (snd (create sample_env ''u1'' ?b sample_state)) = [sample_product, ?doc]"
    by (simp_all add: doc store_invalidate sample_state_def)
  from c s2 v2 have "create ?strict ''u1'' (req_body sample_request) sample_state
      = (\<lparr>status = 500,
          body = MessageError ''Error adding product''
                   (Rejection (Some ''Product validation failed''))\<rparr>, sample_state)"
    by blast
  then have 3: "fst (create ?strict ''u1'' (req_body sample_request) sample_state)
      = \<lparr>status = 500,
         body = MessageError ''Error adding product''
                  (Rejection (Some ''Product validation failed''))\<rparr>"
    by simp
  from 1 2 3 show ?thesis by blast
qed

text \<open>
  C3 as stated fails. A scrape call that rejects is caught by the handler's one
  \<open>catch\<close>: creation answers 500 and stores nothing. And where the schema asks for a
  history that is not empty, the document of an absent scrape is refused on \<open>save\<close>
  though that of a successful scrape is accepted, so creation fails for no other reason
  than the scrape.
\<close>

theorem create_scrape_rejected_counterexample:
  "create (sample_env\<lparr>scrapePrice := (\<lambda>u p. Rejected (Some ''timeout of 10000ms exceeded''))\<rparr>)
      ''u1'' (req_body sample_request) sample_state
     = (\<lparr>status = 500,
         body = MessageError ''Error adding product''
                  (Rejection (Some ''timeout of 10000ms exceeded''))\<rparr>,
        sample_state)
   \<and> create (sample_env\<lparr>validation :=
                (\<lambda>p. if priceHistory p = [] then Some ''Product validation failed'' else None)\<rparr>)
        ''u1'' (req_body sample_request) sample_state
       = (\<lparr>status = 500,
           body = MessageError ''Error adding product''
                    (Rejection (Some ''Product validation failed''))\<rparr>,
          sample_state)
   \<and> status (fst (create
                    (sample_env\<lparr>scrapePrice := (\<lambda>u p. Resolved (Some 5)),
                       validation :=
                         (\<lambda>p. if priceHistory p = []
                               then Some ''Product validation failed'' else None)\<rparr>)
                    ''u1'' (req_body sample_request) sample_state)) = 201"
  by (simp add: create_def sample_env_def new_product_def Let_def)

section \<open>The cache gate on reads\<close>

lemma Product_find_newest_first:
  "sorted_wrt (\<lambda>p q. createdAt q \<le> createdAt p) (Product_find uid docs)"
proof -
  let ?all = "sort_key (\<lambda>p. - int (createdAt p)) (filter (\<lambda>p. userId p = uid) docs)"
  have "sorted (map (\<lambda>p. - int (createdAt p)) ?all)"
    by (rule sorted_sort_key)
  then have "sorted_wrt (\<lambda>p q. createdAt q \<le> createdAt p) ?all"
    by (simp add: sorted_map)
  then show ?thesis
    unfolding Product_find_def by (rule sorted_wrt_take)
qed

lemma Product_find_length: "length (Product_find uid docs) \<le> 100"
  by (simp add: Product_find_def)

lemma Product_find_all:
  "\<exists>newest. mset newest = mset (filter (\<lambda>p. userId p = uid) docs)
     \<and> sorted_wrt (\<lambda>p q. createdAt q \<le> createdAt p) newest
     \<and> Product_find uid docs = take 100 newest"
proof (intro exI conjI)
  let ?all = "sort_key (\<lambda>p. - int (createdAt p)) (filter (\<lambda>p. userId p = uid) docs)"
  show "mset ?all = mset (filter (\<lambda>p. userId p = uid) docs)" by simp
  have "sorted (map (\<lambda>p. - int (createdAt p)) ?all)"
    by (rule sorted_sort_key)
  then show "sorted_wrt (\<lambda>p q. createdAt q \<le> createdAt p) ?all"
    by (simp add: sorted_map)
  show "Product_find uid docs = take 100 ?all" by (simp add: Product_find_def)
qed

lemma list_products_hit:
  "redis st = Some c \<Longrightarrow> c (cacheKey uid) = Some (v, ttl) \<Longrightarrow> v \<noteq> [] \<Longrightarrow>
     JSON_parse env v = Some parsed \<Longrightarrow>
     list_products env uid st = (\<lparr>status = 200, body = CachedProducts parsed\<rparr>, st)"
  by (simp add: list_products_def)

lemma list_products_no_cache:
  "redis st = None \<Longrightarrow>
     list_products env uid st
       = (\<lparr>status = 200, body = Products (Product_find uid (store st))\<rparr>, st)"
  by (simp add: list_products_def Let_def)

lemma list_products_miss:
  "redis st = Some c \<Longrightarrow> c (cacheKey uid) = None \<Longrightarrow>
     list_products env uid st
       = (\<lparr>status = 200, body = Products (Product_find uid (store st))\<rparr>,
          st\<lparr>redis := Some (c(cacheKey uid \<mapsto>
                                (JSON_stringify env (Product_find uid (store st)), 300)))\<rparr>)"
  by (simp add: list_products_def Let_def)

lemma list_products_tag:
  "body (fst (list_products env uid st)) = CachedProducts parsed \<Longrightarrow>
     \<exists>c v ttl. redis st = Some c \<and> c (cacheKey uid) = Some (v, ttl) \<and> JSON_parse env v = Some parsed"
  by (auto simp: list_products_def Let_def split: option.splits if_splits prod.splits)

text \<open>
  C8. When the cache is available and holds a value under the user's key (a string that
  is not empty and that deserializes), the response is the deserialized value with the
  cached tag and nothing changes. Otherwise the response is the user's documents, newest
  first and at most 100, without the tag; with a cache available they are stored under the
  user's key with an expiry of 300 seconds, and without one the state is unchanged. A
  response carries the cached tag only when the cache held a value under the key.
\<close>

theorem list_products_cache_aside:
  "(redis st = Some c \<and> c (cacheKey uid) = Some (v, ttl) \<and> v \<noteq> [] \<and> JSON_parse env v = Some parsed
      \<longrightarrow> list_products env uid st = (\<lparr>status = 200, body = CachedProducts parsed\<rparr>, st))
   \<and> (redis st = None \<longrightarrow>
        list_products env uid st
          = (\<lparr>status = 200, body = Products (Product_find uid (store st))\<rparr>, st))
   \<and> (redis st = Some c \<and> c (cacheKey uid) = None \<longrightarrow>
        list_products env uid st
          = (\<lparr>status = 200, body = Products (Product_find uid (store st))\<rparr>,
             st\<lparr>redis := Some (c(cacheKey uid \<mapsto>
                                   (JSON_stringify env (Product_find uid (store st)), 300)))\<rparr>))
   \<and> (\<exists>newest. mset newest = mset (filter (\<lambda>p. userId p = uid) (store st))
          \<and> sorted_wrt (\<lambda>p q. createdAt q \<le> createdAt p) newest
          \<and> Product_find uid (store st) = take 100 newest)
   \<and> length (Product_find uid (store st)) \<le> 100
   \<and> (body (fst (list_products env uid st)) = CachedProducts parsed \<longrightarrow>
        (\<exists>c v ttl. redis st = Some c \<and> c (cacheKey uid) = Some (v, ttl)
           \<and> JSON_parse env v = Some parsed))"
  using list_products_hit [of st c uid v ttl env parsed] list_products_no_cache [of st env uid]
    list_products_miss [of st c uid env] Product_find_all [of uid "store st"]
    Product_find_length [of uid "store st"] list_products_tag [of env uid st parsed]
  by blast

theorem list_products_cache_aside_witness:
  "list_products sample_env ''u1''
     (sample_state\<lparr>redis := Some ((\<lambda>k. None)(cacheKey ''u1'' \<mapsto> (''[]'', 300)))\<rparr>)
     = (\<lparr>status = 200, body = CachedProducts (Arr [])\<rparr>,
        sample_state\<lparr>redis := Some ((\<lambda>k. None)(cacheKey ''u1'' \<mapsto> (''[]'', 300)))\<rparr>)
   \<and> fst (list_products sample_env ''u1'' (sample_state\<lparr>redis := None\<rparr>))
     = \<lparr>status = 200, body = Products [sample_product]\<rparr>
   \<and> fst (list_products sample_env ''u1'' sample_state)
     = \<lparr>status = 200, body = Products [sample_product]\<rparr>
   \<and> map_option (\<lambda>c. c (cacheKey ''u1'')) (redis (snd (list_products sample_env ''u1'' sample_state)))
     = Some (Some (''[]'', 300))"
proof -
  have find: "Product_find ''u1'' [sample_product] = [sample_product]"
    by (simp add: Product_find_def sample_product_def)
  show ?thesis
    using list_products_cache_aside
        [of "sample_state\<lparr>redis := Some ((\<lambda>k. None)(cacheKey ''u1'' \<mapsto> (''[]'', 300)))\<rparr>"
            "(\<lambda>k. None)(cacheKey ''u1'' \<mapsto> (''[]'', 300))" "''u1''" "''[]''" 300 sample_env
            "Arr []"]
      list_products_cache_aside
        [of "sample_state\<lparr>redis := None\<rparr>" "\<lambda>k. None" "''u1''" "''[]''" 300 sample_env "Arr []"]
      list_products_cache_aside
        [of sample_state "\<lambda>k. None" "''u1''" "''[]''" 300 sample_env "Arr []"]
    by (simp add: sample_state_def sample_env_def find)
qed

section \<open>The cache gate on writes\<close>

lemma cacheKey_inj: "cacheKey u = cacheKey v \<longleftrightarrow> u = v"
  by (simp add: cacheKey_def)

lemma redis_invalidate:
  "redis (invalidate uid st) = map_option (\<lambda>c. c(cacheKey uid := None)) (redis st)"
  by (simp add: invalidate_def split: option.split)

lemma no_entry_invalidate: "no_entry uid (invalidate uid st)"
  by (simp add: no_entry_def redis_invalidate split: option.split)

lemma no_entry_store_update: "no_entry uid (st\<lparr>store := docs\<rparr>) = no_entry uid st"
  by (simp add: no_entry_def)

lemma no_entry_invalidate_other: "no_entry uid st \<Longrightarrow> no_entry uid (invalidate v st)"
  by (auto simp: no_entry_def redis_invalidate split: option.splits)

lemma no_entry_fresh_read: "no_entry uid st \<Longrightarrow> fresh_read env uid st"
  by (auto simp: no_entry_def fresh_read_def list_products_def Let_def split: option.splits)

lemma create_no_entry:
  "status (fst (create env uid b st)) < 300 \<Longrightarrow> no_entry uid (snd (create env uid b st))"
  by (auto simp: create_def Let_def no_entry_invalidate split: option.splits awaited.splits)

lemma update_no_entry:
  "status (fst (update env uid oid b st)) < 300 \<Longrightarrow> no_entry uid (snd (update env uid oid b st))"
  by (auto simp: update_def no_entry_invalidate split: option.splits if_splits)

lemma delete_no_entry:
  "status (fst (delete env uid oid st)) < 300 \<Longrightarrow> no_entry uid (snd (delete env uid oid st))"
  by (auto simp: delete_def no_entry_invalidate split: option.splits if_splits)

lemma list_products_other:
  "v \<noteq> uid \<Longrightarrow> no_entry uid st \<Longrightarrow> no_entry uid (snd (list_products env v st))"
  by (auto simp: list_products_def Let_def no_entry_def cacheKey_inj split: option.splits)

lemma create_other: "no_entry uid st \<Longrightarrow> no_entry uid (snd (create env v b st))"
  by (auto simp: create_def Let_def no_entry_invalidate_other no_entry_store_update
      split: option.splits awaited.splits)

lemma read_one_other: "no_entry uid st \<Longrightarrow> no_entry uid (snd (read_one env v oid st))"
  by (auto simp: read_one_def Let_def no_entry_store_update split: option.splits)

lemma update_other: "no_entry uid st \<Longrightarrow> no_entry uid (snd (update env v oid b st))"
  by (auto simp: update_def no_entry_invalidate_other no_entry_store_update split: option.splits)

lemma delete_other: "no_entry uid st \<Longrightarrow> no_entry uid (snd (delete env v oid st))"
  by (auto simp: delete_def no_entry_invalidate_other no_entry_store_update split: option.splits)

lemma find_routes_cases:
  assumes "find (\<lambda>(m, pat, e). m = req_method req \<and> matches pat (path req)) routes = Some (m, pat, e)"
  shows "e = Open sponsored_route
    \<or> e = Guarded (\<lambda>env uid req st. on_state (list_products env uid st))
    \<or> e = Guarded (\<lambda>env uid req st. on_state (create env uid (req_body req) st))
    \<or> e = Guarded (\<lambda>env uid req st. on_state (read_one env uid (param_id req) st))
    \<or> e = Guarded (\<lambda>env uid req st. on_state (update env uid (param_id req) (req_body req) st))
    \<or> e = Guarded (\<lambda>env uid req st. on_state (delete env uid (param_id req) st))"
  using assms by (auto simp: routes_def split: if_splits)

lemma dispatch_other:
  assumes "auth env req \<noteq> Inr uid" "no_entry uid st"
  shows "no_entry uid (after (dispatch env req st))"
proof (cases "find (\<lambda>(m, pat, e). m = req_method req \<and> matches pat (path req)) routes")
  case None
  with assms show ?thesis by (simp add: dispatch_def)
next
  case (Some r)
  obtain m pat e where r: "r = (m, pat, e)" by (cases r)
  from find_routes_cases [OF Some [unfolded r]] show ?thesis
  proof (elim disjE)
    assume "e = Open sponsored_route"
    with Some r assms show ?thesis by (simp add: dispatch_def sponsored_route_def)
  next
    assume "e = Guarded (\<lambda>env uid req st. on_state (list_products env uid st))"
    with Some r assms show ?thesis
      by (cases "auth env req") (auto simp: dispatch_def on_state_def list_products_other)
  next
    assume "e = Guarded (\<lambda>env uid req st. on_state (create env uid (req_body req) st))"
    with Some r assms show ?thesis
      by (cases "auth env req") (auto simp: dispatch_def on_state_def create_other)
  next
    assume "e = Guarded (\<lambda>env uid req st. on_state (read_one env uid (param_id req) st))"
    with Some r assms show ?thesis
      by (cases "auth env req") (auto simp: dispatch_def on_state_def read_one_other)
  next
    assume "e = Guarded (\<lambda>env uid req st. on_state (update env uid (param_id req) (req_body req) st))"
    with Some r assms show ?thesis
      by (cases "auth env req") (auto simp: dispatch_def on_state_def update_other)
  next
    assume "e = Guarded (\<lambda>env uid req st. on_state (delete env uid (param_id req) st))"
    with Some r assms show ?thesis
      by (cases "auth env req") (auto simp: dispatch_def on_state_def delete_other)
  qed
qed

lemma run_other:
  "list_all (\<lambda>(e, r). auth e r \<noteq> Inr uid) others \<Longrightarrow> no_entry uid st \<Longrightarrow>
     no_entry uid (run others st)"
proof (induction others arbitrary: st)
  case Nil
  then show ?case by simp
next
  case (Cons x others)
  obtain e r where x: "x = (e, r)" by (cases x)
  with Cons.prems have "no_entry uid (after (dispatch e r st))"
    by (simp add: dispatch_other)
  with Cons x show ?case by simp
qed

text \<open>
  C2. After a successful create, update or delete for a user, the cache holds nothing
  under the user's key (or there is no cache), and it stays so through any requests that
  are not the user's own; the user's next list read is therefore answered from the store
  as it is then, without the cached tag: a cache miss that repopulates, or a store read
  with no cache.
\<close>

theorem write_then_read_fresh:
  "list_all (\<lambda>(e, r). auth e r \<noteq> Inr uid) others \<longrightarrow>
     (status (fst (create env uid b st)) < 300 \<longrightarrow>
        no_entry uid (snd (create env uid b st))
        \<and> fresh_read env' uid (run others (snd (create env uid b st))))
     \<and> (status (fst (update env uid oid b st)) < 300 \<longrightarrow>
          no_entry uid (snd (update env uid oid b st))
          \<and> fresh_read env' uid (run others (snd (update env uid oid b st))))
     \<and> (status (fst (delete env uid oid st)) < 300 \<longrightarrow>
          no_entry uid (snd (delete env uid oid st))
          \<and> fresh_read env' uid (run others (snd (delete env uid oid st))))"
  by (simp add: create_no_entry update_no_entry delete_no_entry run_other no_entry_fresh_read)

theorem write_then_read_fresh_witness:
  "fresh_read sample_env ''u1''
     (run [(sample_env, sample_request\<lparr>path := [], authorization := Some ''u2''\<rparr>)]
        (snd (create sample_env ''u1'' (req_body sample_request)
                (sample_state\<lparr>redis := Some ((\<lambda>k. None)(cacheKey ''u1'' \<mapsto> (''[]'', 300)))\<rparr>))))
   \<and> no_entry ''u1''
        (snd (update sample_env ''u1'' ''0123456789abcdef01234567''
                (req_body sample_request\<lparr>b_targetPrice := Some 9\<rparr>)
                (sample_state\<lparr>redis := Some ((\<lambda>k. None)(cacheKey ''u1'' \<mapsto> (''[]'', 300)))\<rparr>)))
   \<and> fresh_read sample_env ''u1''
        (run []
           (snd (delete sample_env ''u1'' ''0123456789abcdef01234567''
                   (sample_state\<lparr>redis := Some ((\<lambda>k. None)(cacheKey ''u1'' \<mapsto> (''[]'', 300)))\<rparr>))))"
proof -
  let ?st = "sample_state\<lparr>redis := Some ((\<lambda>k. None)(cacheKey ''u1'' \<mapsto> (''[]'', 300)))\<rparr>"
  let ?others = "[(sample_env, sample_request\<lparr>path := [], authorization := Some ''u2''\<rparr>)]"
  have others: "list_all (\<lambda>(e, r). auth e r \<noteq> Inr ''u1'') ?others"
    by (simp add: sample_env_def sample_request_def)
  have cast: "ObjectId_cast ''0123456789abcdef01234567'' = Some ''0123456789abcdef01234567''"
    by (simp add: ObjectId_cast_def to_lower_def)
  have c: "status (fst (create sample_env ''u1'' (req_body sample_request) ?st)) < 300"
    by (simp add: create_def sample_env_def Let_def)
  have u: "status (fst (update sample_env ''u1'' ''0123456789abcdef01234567''
                          (req_body sample_request\<lparr>b_targetPrice := Some 9\<rparr>) ?st)) < 300"
    by (simp add: update_def cast owned_def sample_state_def sample_product_def)
  have d: "status (fst (delete sample_env ''u1'' ''0123456789abcdef01234567'' ?st)) < 300"
    by (simp add: delete_def cast owned_def sample_state_def sample_product_def)
  show ?thesis
    using write_then_read_fresh
        [of "''u1''" ?others sample_env "req_body sample_request" ?st sample_env
            "''0123456789abcdef01234567''"]
      write_then_read_fresh
        [of "''u1''" "[]" sample_env "req_body sample_request\<lparr>b_targetPrice := Some 9\<rparr>" ?st
            sample_env "''0123456789abcdef01234567''"]
      others c u d
    by simp
qed

section \<open>Authentication and user scope\<close>

lemma filter_update_first:
  "(\<And>x. x \<in> set xs \<Longrightarrow> P x \<Longrightarrow> \<not> Q x \<and> \<not> Q (f x)) \<Longrightarrow>
     filter Q (update_first P f xs) = filter Q xs"
  by (induction xs) auto

lemma filter_remove_first:
  "(\<And>x. x \<in> set xs \<Longrightarrow> P x \<Longrightarrow> \<not> Q x) \<Longrightarrow> filter Q (remove_first P xs) = filter Q xs"
  by (induction xs) auto

lemma find_owned:
  "find (owned oid uid) xs = Some found \<Longrightarrow>
     found \<in> set xs \<and> pid found = oid \<and> userId found = uid"
  by (induction xs) (auto simp: owned_def split: if_splits)

lemma distinct_pid_owner:
  assumes "distinct (map pid xs)" "found \<in> set xs" "x \<in> set xs" "pid x = pid found"
  shows "x = found"
  using assms by (meson distinct_map inj_onD)

lemma cache_invalidate_other:
  "v \<noteq> uid \<Longrightarrow>
     map_option (\<lambda>c. c (cacheKey v)) (redis (invalidate uid st))
       = map_option (\<lambda>c. c (cacheKey v)) (redis st)"
  by (simp add: redis_invalidate cacheKey_inj option.map_comp comp_def)

lemma own_invalidate_other: "v \<noteq> uid \<Longrightarrow> own v (invalidate uid st) = own v st"
  by (simp add: own_def store_invalidate cache_invalidate_other)

lemma list_products_others:
  "v \<noteq> uid \<Longrightarrow> own v (snd (list_products env uid st)) = own v st"
  by (auto simp: own_def list_products_def Let_def cacheKey_inj split: option.splits)

lemma create_others:
  assumes "v \<noteq> uid"
  shows "own v (snd (create env uid b st)) = own v st"
proof -
  have "userId (new_product env uid b priceData) = uid" for priceData
    by (simp add: new_product_def)
  then have "own v (st\<lparr>store := store st @ [new_product env uid b priceData]\<rparr>) = own v st"
    for priceData
    using assms by (simp add: own_def)
  then show ?thesis
    using assms
    by (simp add: create_def Let_def own_invalidate_other split: option.split awaited.split)
qed

lemma read_one_others:
  assumes "v \<noteq> uid" "distinct (map pid (store st))"
  shows "own v (snd (read_one env uid param st)) = own v st"
proof (cases "ObjectId_cast param")
  case None
  then show ?thesis by (simp add: read_one_def)
next
  case (Some oid)
  note cast = this
  show ?thesis
  proof (cases "find (owned oid uid) (store st)")
    case None
    with cast show ?thesis by (simp add: read_one_def)
  next
    case (Some found)
    note f = find_owned [OF Some]
    have "filter (\<lambda>p. userId p = v)
            (update_first (\<lambda>p. pid p = pid found)
               (\<lambda>p. found\<lparr>views := views found + 1\<rparr>) (store st))
          = filter (\<lambda>p. userId p = v) (store st)"
    proof (rule filter_update_first)
      fix x assume "x \<in> set (store st)" "pid x = pid found"
      then have "x = found"
        using assms(2) f by (intro distinct_pid_owner [of "store st"]) simp_all
      then show "\<not> userId x = v \<and> \<not> userId (found\<lparr>views := views found + 1\<rparr>) = v"
        using f assms(1) by simp
    qed
    with Some cast show ?thesis
      by (simp add: read_one_def Let_def own_def split: option.split)
  qed
qed

lemma update_others:
  assumes "v \<noteq> uid" "b_userId b \<noteq> Some v"
  shows "own v (snd (update env uid param b st)) = own v st"
proof -
  have "filter (\<lambda>p. userId p = v) (update_first (owned oid uid) (apply_set b) (store st))
        = filter (\<lambda>p. userId p = v) (store st)" for oid
  proof (rule filter_update_first)
    fix x assume "x \<in> set (store st)" "owned oid uid x"
    then show "\<not> userId x = v \<and> \<not> userId (apply_set b x) = v"
      using assms by (auto simp: owned_def apply_set_def split: option.splits)
  qed
  then have "own v (st\<lparr>store := update_first (owned oid uid) (apply_set b) (store st)\<rparr>) = own v st"
    for oid
    by (simp add: own_def)
  then show ?thesis
    using assms(1) by (simp add: update_def own_invalidate_other split: option.split)
qed

lemma delete_others:
  assumes "v \<noteq> uid"
  shows "own v (snd (delete env uid param st)) = own v st"
proof -
  have "filter (\<lambda>p. userId p = v) (remove_first (owned oid uid) (store st))
        = filter (\<lambda>p. userId p = v) (store st)" for oid
    using assms by (intro filter_remove_first) (simp add: owned_def)
  then have "own v (st\<lparr>store := remove_first (owned oid uid) (store st)\<rparr>) = own v st" for oid
    by (simp add: own_def)
  then show ?thesis
    using assms by (simp add: delete_def own_invalidate_other split: option.split)
qed

lemma find_owned_filter:
  "find (owned oid uid) xs = find (\<lambda>p. pid p = oid) (filter (\<lambda>p. userId p = uid) xs)"
  by (induction xs) (auto simp: owned_def)

lemma own_find:
  "own uid st = own uid st' \<Longrightarrow> find (owned oid uid) (store st) = find (owned oid uid) (store st')"
  by (simp add: own_def find_owned_filter)

lemma own_Product_find:
  "own uid st = own uid st' \<Longrightarrow> Product_find uid (store st) = Product_find uid (store st')"
  by (simp add: own_def Product_find_def)

lemma list_products_own:
  assumes "own uid st = own uid st'"
  shows "fst (list_products env uid st) = fst (list_products env uid st')"
proof -
  have c: "map_option (\<lambda>c. c (cacheKey uid)) (redis st) = map_option (\<lambda>c. c (cacheKey uid)) (redis st')"
    using assms by (simp add: own_def)
  show ?thesis
  proof (cases "redis st")
    case None
    then have "redis st' = None" using c by simp
    with None show ?thesis
      by (simp add: list_products_def Let_def own_Product_find [OF assms])
  next
    case (Some c1)
    then obtain c2 where c2: "redis st' = Some c2" "c1 (cacheKey uid) = c2 (cacheKey uid)"
      using c by (cases "redis st'") auto
    with Some show ?thesis
      by (simp add: list_products_def Let_def own_Product_find [OF assms]
          split: option.split prod.split)
  qed
qed

lemma read_one_own:
  "own uid st = own uid st' \<Longrightarrow> fst (read_one env uid oid st) = fst (read_one env uid oid st')"
  by (simp add: read_one_def Let_def own_find [of uid st st'] split: option.split)

lemma update_own:
  "own uid st = own uid st' \<Longrightarrow> fst (update env uid oid b st) = fst (update env uid oid b st')"
  by (simp add: update_def own_find [of uid st st'] split: option.split)

lemma delete_own:
  "own uid st = own uid st' \<Longrightarrow> fst (delete env uid oid st) = fst (delete env uid oid st')"
  by (simp add: delete_def own_find [of uid st st'] split: option.split)

lemma create_own: "fst (create env uid b st) = fst (create env uid b st')"
  by (simp add: create_def Let_def split: option.split awaited.split)


lemma dispatch_sponsored:
  "sponsored_request req \<Longrightarrow> dispatch env req st = sponsored_route env req st"
  by (simp add: dispatch_def routes_def sponsored_request_def)

lemma find_routes_guarded:
  assumes "find (\<lambda>(m, pat, e). m = req_method req \<and> matches pat (path req)) routes = Some (m, pat, e)"
    "\<not> sponsored_request req"
  shows "e = Guarded (\<lambda>env uid req st. on_state (list_products env uid st))
    \<or> e = Guarded (\<lambda>env uid req st. on_state (create env uid (req_body req) st))
    \<or> e = Guarded (\<lambda>env uid req st. on_state (read_one env uid (param_id req) st))
    \<or> (e = Guarded (\<lambda>env uid req st. on_state (update env uid (param_id req) (req_body req) st))
        \<and> req_method req = PUT)
    \<or> e = Guarded (\<lambda>env uid req st. on_state (delete env uid (param_id req) st))"
  using assms by (auto simp: routes_def sponsored_request_def split: if_splits)

lemma dispatch_cases:
  obtains (sponsored) "sponsored_request req"
      "\<And>st. dispatch env req st = sponsored_route env req st"
  | (unrouted) "\<not> sponsored_request req"
      "\<And>st. dispatch env req st = \<lparr>reply = None, after = st, requested = []\<rparr>"
  | (denied) denial where "\<not> sponsored_request req" "auth env req = Inl denial"
      "\<And>st. dispatch env req st = \<lparr>reply = Some denial, after = st, requested = []\<rparr>"
  | (list) uid where "auth env req = Inr uid"
      "\<And>st. dispatch env req st = on_state (list_products env uid st)"
  | (create) uid where "auth env req = Inr uid"
      "\<And>st. dispatch env req st = on_state (create env uid (req_body req) st)"
  | (read_one) uid where "auth env req = Inr uid"
      "\<And>st. dispatch env req st = on_state (read_one env uid (param_id req) st)"
  | (update) uid where "auth env req = Inr uid" "req_method req = PUT"
      "\<And>st. dispatch env req st = on_state (update env uid (param_id req) (req_body req) st)"
  | (delete) uid where "auth env req = Inr uid"
      "\<And>st. dispatch env req st = on_state (delete env uid (param_id req) st)"
proof (cases "sponsored_request req")
  case True
  then show ?thesis using dispatch_sponsored [OF True] by (rule sponsored)
next
  case False
  show ?thesis
  proof (cases "find (\<lambda>(m, pat, e). m = req_method req \<and> matches pat (path req)) routes")
    case None
    with False show ?thesis by (intro unrouted) (simp_all add: dispatch_def)
  next
    case (Some r)
    obtain m pat e where r: "r = (m, pat, e)" by (cases r)
    note g = find_routes_guarded [OF Some [unfolded r] False]
    show ?thesis
    proof (cases "auth env req")
      case (Inl denial)
      with g Some r False show ?thesis by (intro denied [of denial]) (auto simp: dispatch_def)
    next
      case (Inr uid)
      from g show ?thesis
      proof (elim disjE)
        assume "e = Guarded (\<lambda>env uid req st. on_state (list_products env uid st))"
        with Some r Inr show ?thesis by (intro list [of uid]) (simp_all add: dispatch_def)
      next
        assume "e = Guarded (\<lambda>env uid req st. on_state (create env uid (req_body req) st))"
        with Some r Inr show ?thesis by (intro create [of uid]) (simp_all add: dispatch_def)
      next
        assume "e = Guarded (\<lambda>env uid req st. on_state (read_one env uid (param_id req) st))"
        with Some r Inr show ?thesis by (intro read_one [of uid]) (simp_all add: dispatch_def)
      next
        assume "e = Guarded (\<lambda>env uid req st. on_state (update env uid (param_id req) (req_body req) st))
                \<and> req_method req = PUT"
        with Some r Inr show ?thesis by (intro update [of uid]) (simp_all add: dispatch_def)
      next
        assume "e = Guarded (\<lambda>env uid req st. on_state (delete env uid (param_id req) st))"
        with Some r Inr show ?thesis by (intro delete [of uid]) (simp_all add: dispatch_def)
      qed
    qed
  qed
qed

lemma dispatch_behind_auth: "\<not> sponsored_request req \<Longrightarrow> behind_auth env req st"
  by (cases env req rule: dispatch_cases) (auto simp: behind_auth_def split: sum.split)

lemma dispatch_others:
  assumes "auth env req = Inr uid" "v \<noteq> uid" "distinct (map pid (store st))"
    "\<not> hands_over req v"
  shows "own v (after (dispatch env req st)) = own v st"
proof (cases env req rule: dispatch_cases)
  case sponsored
  then show ?thesis by (simp add: sponsored_route_def)
next
  case unrouted
  then show ?thesis by simp
next
  case (denied denial)
  then show ?thesis by simp
next
  case (list u)
  with assms show ?thesis by (simp add: on_state_def list_products_others)
next
  case (create u)
  with assms show ?thesis by (simp add: on_state_def create_others)
next
  case (read_one u)
  with assms show ?thesis by (simp add: on_state_def read_one_others)
next
  case (update u)
  with assms have "b_userId (req_body req) \<noteq> Some v" by (simp add: hands_over_def)
  with update assms show ?thesis by (simp add: on_state_def update_others)
next
  case (delete u)
  with assms show ?thesis by (simp add: on_state_def delete_others)
qed

lemma dispatch_own:
  assumes "auth env req = Inr uid" "own uid st = own uid st'"
  shows "reply (dispatch env req st) = reply (dispatch env req st')"
proof (cases env req rule: dispatch_cases)
  case sponsored
  then show ?thesis by (simp add: sponsored_route_def)
next
  case unrouted
  then show ?thesis by simp
next
  case (denied denial)
  then show ?thesis by simp
next
  case (list u)
  with assms have "u = uid" by simp
  with list assms(2) show ?thesis by (simp add: on_state_def list_products_own [of uid st st'])
next
  case (create u)
  then show ?thesis by (simp add: on_state_def create_own [of env u "req_body req" st st'])
next
  case (read_one u)
  with assms have "u = uid" by simp
  with read_one assms(2) show ?thesis by (simp add: on_state_def read_one_own [of uid st st'])
next
  case (update u)
  with assms have "u = uid" by simp
  with update assms(2) show ?thesis by (simp add: on_state_def update_own [of uid st st'])
next
  case (delete u)
  with assms have "u = uid" by simp
  with delete assms(2) show ?thesis by (simp add: on_state_def delete_own [of uid st st'])
qed

text \<open>
  C4, as amended. Every request other than the sponsored search reaches a handler only
  behind the authentication collaborator: a request it turns away gets its answer, and
  neither the state nor the provider is touched. The sponsored search runs without it
  and leaves the state as it is. A request the collaborator lets through with identity
  \<open>uid\<close> neither affects nor reads another user's data: what belongs to any other user
  \<open>v\<close>, documents and cache entry, is the same afterwards (the collection's \<open>_id\<close>s being
  distinct), and the response is the same in any two states that agree on what belongs
  to \<open>uid\<close>. The first is stated for every request but an update whose body sets
  \<open>userId\<close> to \<open>v\<close>.
\<close>

theorem guarded_scope:
  "(\<not> sponsored_request req \<longrightarrow> behind_auth env req st)
   \<and> (sponsored_request req \<longrightarrow> after (dispatch env req st) = st)
   \<and> (auth env req = Inr uid \<longrightarrow>
        (v \<noteq> uid \<and> distinct (map pid (store st)) \<and> \<not> hands_over req v \<longrightarrow>
           own v (after (dispatch env req st)) = own v st)
        \<and> (own uid st = own uid st' \<longrightarrow>
             reply (dispatch env req st) = reply (dispatch env req st')))"
proof (intro conjI impI)
  assume "\<not> sponsored_request req"
  then show "behind_auth env req st" by (rule dispatch_behind_auth)
next
  assume "sponsored_request req"
  then show "after (dispatch env req st) = st"
    by (simp add: dispatch_sponsored sponsored_route_def)
next
  assume "auth env req = Inr uid"
    "v \<noteq> uid \<and> distinct (map pid (store st)) \<and> \<not> hands_over req v"
  then show "own v (after (dispatch env req st)) = own v st"
    by (intro dispatch_others [of env req uid]) simp_all
next
  assume "auth env req = Inr uid" "own uid st = own uid st'"
  then show "reply (dispatch env req st) = reply (dispatch env req st')"
    by (rule dispatch_own)
qed

theorem guarded_scope_witness:
  "behind_auth sample_env
     (sample_request\<lparr>req_method := DELETE, path := [''0123456789abcdef01234567'']\<rparr>) sample_state
   \<and> after (dispatch sample_env sample_request sample_state) = sample_state
   \<and> own ''u1''
        (after (dispatch sample_env
                  (sample_request\<lparr>req_method := DELETE,
                                    path := [''0123456789abcdef01234567''],
                                    authorization := Some ''u2''\<rparr>) sample_state))
       = ([sample_product], Some None)
   \<and> own ''u1''
        (after (dispatch sample_env
                  (sample_request\<lparr>req_method := POST, path := [],
                                    authorization := Some ''u2'',
                                    req_body := req_body sample_request\<lparr>b_userId := Some ''u1''\<rparr>\<rparr>)
                  sample_state))
       = ([sample_product], Some None)
   \<and> reply (dispatch sample_env
               (sample_request\<lparr>req_method := GET, path := [],
                                 authorization := Some ''u2''\<rparr>) sample_state)
       = reply (dispatch sample_env
                 (sample_request\<lparr>req_method := GET, path := [],
                                   authorization := Some ''u2''\<rparr>) (sample_state\<lparr>store := []\<rparr>))"
proof -
  let ?del = "sample_request\<lparr>req_method := DELETE, path := [''0123456789abcdef01234567'']\<rparr>"
  let ?del2 = "sample_request\<lparr>req_method := DELETE, path := [''0123456789abcdef01234567''],
                              authorization := Some ''u2''\<rparr>"
  let ?post2 = "sample_request\<lparr>req_method := POST, path := [], authorization := Some ''u2'',
                               req_body := req_body sample_request\<lparr>b_userId := Some ''u1''\<rparr>\<rparr>"
  let ?list2 = "sample_request\<lparr>req_method := GET, path := [], authorization := Some ''u2''\<rparr>"
  have n1: "\<not> sponsored_request ?del"
    by (simp add: sponsored_request_def)
  have s1: "sponsored_request sample_request"
    by (simp add: sponsored_request_def sample_request_def to_lower_def)
  have a2: "auth sample_env ?del2 = Inr ''u2''" "auth sample_env ?post2 = Inr ''u2''"
    "auth sample_env ?list2 = Inr ''u2''"
    by (simp_all add: sample_env_def)
  have h: "''u1'' \<noteq> ''u2'' \<and> distinct (map pid (store sample_state)) \<and> \<not> hands_over ?del2 ''u1''"
    "''u1'' \<noteq> ''u2'' \<and> distinct (map pid (store sample_state)) \<and> \<not> hands_over ?post2 ''u1''"
    by (simp_all add: sample_state_def hands_over_def)
  have o1: "own ''u1'' sample_state = ([sample_product], Some None)"
    by (simp add: own_def sample_state_def sample_product_def)
  have o: "own ''u2'' sample_state = own ''u2'' (sample_state\<lparr>store := []\<rparr>)"
    by (simp add: own_def sample_state_def sample_product_def)
  from guarded_scope [of ?del sample_env sample_state "''u2''" "''u1''" sample_state] n1
  have 1: "behind_auth sample_env ?del sample_state" by blast
  from guarded_scope [of sample_request sample_env sample_state "''u2''" "''u1''" sample_state] s1
  have 2: "after (dispatch sample_env sample_request sample_state) = sample_state" by blast
  from guarded_scope [of ?del2 sample_env sample_state "''u2''" "''u1''" sample_state] a2(1) h(1)
  have "own ''u1'' (after (dispatch sample_env ?del2 sample_state)) = own ''u1'' sample_state"
    by blast
  then have 3: "own ''u1'' (after (dispatch sample_env ?del2 sample_state))
                  = ([sample_product], Some None)"
    by (simp only: o1)
  from guarded_scope [of ?post2 sample_env sample_state "''u2''" "''u1''" sample_state] a2(2) h(2)
  have "own ''u1'' (after (dispatch sample_env ?post2 sample_state)) = own ''u1'' sample_state"
    by blast
  then have 4: "own ''u1'' (after (dispatch sample_env ?post2 sample_state))
                  = ([sample_product], Some None)"
    by (simp only: o1)
  from guarded_scope
         [of ?list2 sample_env sample_state "''u2''" "''u1''" "sample_state\<lparr>store := []\<rparr>"] a2(3) o
  have 5: "reply (dispatch sample_env ?list2 sample_state)
             = reply (dispatch sample_env ?list2 (sample_state\<lparr>store := []\<rparr>))"
    by blast
  from 1 2 3 4 5 show ?thesis by blast
qed

text \<open>
  C4 as stated fails twice. A \<open>GET /sponsored\<close> that the authentication collaborator
  would turn away with 401 is answered by the first, unauthenticated handler, which
  calls the provider. And an update by user \<open>u1\<close> whose body sets \<open>userId\<close> to \<open>u2\<close>
  puts the document among those of \<open>u2\<close>, who had none.
\<close>

theorem sponsored_unauthenticated_counterexample:
  "auth sample_env sample_request = Inl \<lparr>status = 401, body = Message ''No token''\<rparr>
   \<and> dispatch sample_env sample_request sample_state
       = \<lparr>reply = Some \<lparr>status = 500,
                        body = MessageError ''Error fetching sponsored results''
                                 (Rejection (Some ''timeout of 10000ms exceeded''))\<rparr>,
          after = sample_state,
          requested = [search_url ''shoes'' ''k1'']\<rparr>
   \<and> \<not> behind_auth sample_env sample_request sample_state
   \<and> auth sample_env
        (sample_request\<lparr>req_method := PUT, path := [''0123456789abcdef01234567''],
                          authorization := Some ''u1'',
                          req_body := req_body sample_request\<lparr>b_userId := Some ''u2''\<rparr>\<rparr>)
       = Inr ''u1''
   \<and> own ''u2'' sample_state = ([], Some None)
   \<and> own ''u2''
        (after (dispatch sample_env
                  (sample_request\<lparr>req_method := PUT, path := [''0123456789abcdef01234567''],
                                    authorization := Some ''u1'',
                                    req_body := req_body sample_request\<lparr>b_userId := Some ''u2''\<rparr>\<rparr>)
                  sample_state))
       = ([sample_product\<lparr>userId := ''u2''\<rparr>], Some None)"
proof -
  let ?put = "sample_request\<lparr>req_method := PUT, path := [''0123456789abcdef01234567''],
                             authorization := Some ''u1'',
                             req_body := req_body sample_request\<lparr>b_userId := Some ''u2''\<rparr>\<rparr>"
  have shoes: "trim ''shoes'' = ''shoes''"
    by (simp add: trim_def is_space_def)
  have sp: "sponsored_request sample_request"
    by (simp add: sponsored_request_def sample_request_def to_lower_def)
  have d: "dispatch sample_env sample_request sample_state
       = \<lparr>reply = Some \<lparr>status = 500,
                        body = MessageError ''Error fetching sponsored results''
                                 (Rejection (Some ''timeout of 10000ms exceeded''))\<rparr>,
          after = sample_state,
          requested = [search_url ''shoes'' ''k1'']\<rparr>"
    unfolding dispatch_sponsored [OF sp]
    by (simp add: sponsored_route_def sponsored_def js_or_def sample_request_def sample_env_def
        shoes sponsored_catch_def)
  have a: "auth sample_env sample_request = Inl \<lparr>status = 401, body = Message ''No token''\<rparr>"
    by (simp add: sample_env_def sample_request_def)
  have nb: "\<not> behind_auth sample_env sample_request sample_state"
    unfolding behind_auth_def a d by simp
  have a1: "auth sample_env ?put = Inr ''u1''"
    by (simp add: sample_env_def)
  have cast: "ObjectId_cast ''0123456789abcdef01234567'' = Some ''0123456789abcdef01234567''"
    by (simp add: ObjectId_cast_def to_lower_def)
  have before: "own ''u2'' sample_state = ([], Some None)"
    by (simp add: own_def sample_state_def sample_product_def)
  have "dispatch sample_env ?put sample_state
          = on_state (update sample_env ''u1'' (param_id ?put) (req_body ?put) sample_state)"
    by (simp add: dispatch_def routes_def a1 to_lower_def)
  then have handed: "own ''u2'' (after (dispatch sample_env ?put sample_state))
                       = ([sample_product\<lparr>userId := ''u2''\<rparr>], Some None)"
    by (simp add: on_state_def update_def param_id_def cast owned_def sample_state_def
        sample_product_def own_def apply_set_def invalidate_def sample_request_def)
  from a d nb a1 before handed show ?thesis by blast
qed

end
